theory Spec2Isabelle
  imports Complex_Main "HOL-Library.Word"
begin

section \<open>Data model\<close>

text \<open>
  The scripts of the repository are stand-alone \<^verbatim>\<open>main()\<close> functions that plan a LayerZero
  OFT transfer, quote it and submit it.  Hex strings (\<^verbatim>\<open>'0x'\<close>, option bytes, ABI payloads)
  are byte lists; \<^verbatim>\<open>'0x'\<close> is the empty list.  Token amounts are ethers \<^verbatim>\<open>BigNumber\<close>s
  (or their decimal strings) and are modelled as unbounded integers; addresses and the
  human-readable amount are strings, as in \<^verbatim>\<open>CONFIG\<close>.
\<close>

type_synonym bytes = "8 word list"

text \<open>The \<^verbatim>\<open>SendParam\<close> tuple \<^verbatim>\<open>(uint32,bytes32,uint256,uint256,bytes,bytes,bytes)\<close>.\<close>

record SendParam =
  dstEid :: nat
  to :: bytes
  amountLD :: int
  minAmountLD :: int
  extraOptions :: bytes
  composeMsg :: bytes
  oftCmd :: bytes

text \<open>The \<^verbatim>\<open>MessagingFee\<close> tuple \<^verbatim>\<open>(uint256,uint256)\<close> returned by \<^verbatim>\<open>quoteSend\<close>.\<close>

record MessagingFee =
  nativeFee :: int
  lzTokenFee :: int

text \<open>
  How a script hands a \<^verbatim>\<open>SendParam\<close> to a contract method: script 1 passes the object
  literal it built (\<^verbatim>\<open>quoteSend(sendParam, false)\<close>), every other script modelled here passes
  an array of the seven fields (\<^verbatim>\<open>quoteSend([sendParam.dstEid, ...], false)\<close>).  The ABI
  fragments of all scripts declare the tuple without component names.
\<close>

datatype argument = Object SendParam | Array SendParam

fun tupleOf :: "argument \<Rightarrow> SendParam" where
  "tupleOf (Object p) = p"
| "tupleOf (Array p) = p"

record chain =
  eid :: nat
  name :: string

text \<open>
  \<^verbatim>\<open>CONFIG\<close> of scripts 1, 5, 7 and 8 (each script reads the fields it declares).  A numeric
  string such as \<^verbatim>\<open>lzComposeValue\<close> is kept as the integer it denotes; \<^verbatim>\<open>undefined\<close> is
  \<open>None\<close>.
\<close>

record CONFIG =
  privateKey :: string
  chains :: "string \<Rightarrow> chain option"
  hub_vault :: string
  hub_composer :: string
  hub_shareOFT :: string
  source_assetOFT :: string
  source_shareOFT :: string
  hubAssetOFT :: string
  srcChain :: string
  dstChain :: string
  hubChain :: string
  amount :: string
  recipientAddress :: string
  minAmount :: "string option"
  lzComposeGas :: nat
  lzComposeValue :: "int option"
  lzReceiveGas :: nat

text \<open>\<^verbatim>\<open>CONFIG\<close> of script 11 (\<^verbatim>\<open>11-base-to-katana-atomic.ts\<close>).\<close>

record CONFIG11 =
  base_usdc :: string
  base_stargatePoolUSDC :: string
  ethereum_eid :: nat
  ethereum_composer :: string
  ethereum_vault :: string
  ethereum_shareOFT :: string
  katana_eid :: nat
  tx_privateKey :: string
  tx_recipientAddress :: string
  tx_usdcAmount :: string
  tx_composeGas :: nat
  tx_slippageBps :: int

text \<open>
  Everything outside the scripts is a parameter: the library functions of ethers and
  \<^verbatim>\<open>lz-v2-utilities\<close> whose code is not part of the repository, and the contracts reached
  over RPC, addressed by contract address.  A call that throws or reverts returns \<open>None\<close>.
  \<open>quoteSend\<close> and \<open>send\<close> stand for the whole call through ethers, so they see whether
  the tuple came as an object or as an array.  \<open>addExecutorLzComposeOption\<close> is the method
  script 1 calls on \<^verbatim>\<open>Options\<close>; the other compose scripts call
  \<open>addExecutorComposeOption\<close>.
  \<open>floatSlippage s\<close> stands for the JavaScript double computation
  \<^verbatim>\<open>(parseFloat(s) * (1 - 50 / 10000)).toString()\<close>.  \<open>send\<close> and \<open>approve\<close> return
  \<open>Some True\<close> when the transaction is submitted and \<^verbatim>\<open>wait()\<close> confirms it, \<open>Some False\<close>
  when it is submitted and \<^verbatim>\<open>wait()\<close> throws, \<open>None\<close> when the call itself throws.
\<close>

record world =
  parseUnits :: "string \<Rightarrow> nat \<Rightarrow> int option"
  floatSlippage :: "string \<Rightarrow> string"
  addressToBytes32 :: "string \<Rightarrow> bytes option"
  addExecutorLzReceiveOption :: "nat \<Rightarrow> nat \<Rightarrow> bytes"
  addExecutorComposeOption :: "nat \<Rightarrow> nat \<Rightarrow> int \<Rightarrow> bytes option"
  addExecutorLzComposeOption :: "nat \<Rightarrow> nat \<Rightarrow> int \<Rightarrow> bytes option"
  wallet :: string
  asset :: "string \<Rightarrow> string option"
  decimals :: "string \<Rightarrow> nat option"
  previewDeposit :: "string \<Rightarrow> int \<Rightarrow> int option"
  previewRedeem :: "string \<Rightarrow> int \<Rightarrow> int option"
  token :: "string \<Rightarrow> string option"
  approvalRequired :: "string \<Rightarrow> bool option"
  quoteSend :: "string \<Rightarrow> argument \<Rightarrow> MessagingFee option"
  send :: "string \<Rightarrow> argument \<Rightarrow> MessagingFee \<Rightarrow> string \<Rightarrow> int \<Rightarrow> bool option"
  allowanceReverts :: bool
  approve :: "string \<Rightarrow> string \<Rightarrow> int \<Rightarrow> bool option"

text \<open>
  The transactions a run submits, in order: \<open>ApproveTx token spender amount\<close> and
  \<open>SendTx contract sendParam fee refundAddress value\<close>.
\<close>

datatype tx =
  ApproveTx string string int
| SendTx string SendParam MessagingFee string int

text \<open>An exception is tagged with the statement that threw it.\<close>

datatype call =
  ChainLookup | Asset | Decimals | ParseUnits | AddressToBytes32 | PreviewDeposit
| HubQuoteSend | AbiEncode | ToNumber | ComposeOption | Token | Allowance | ApproveCall
| QuoteSend | SendCall | Wait

datatype error = PleaseSetConfig | SourceIsHub | Thrown call

text \<open>
  What a run of \<^verbatim>\<open>main()\<close> leaves behind: the exception that ended it (if any), the
  transactions submitted, and the allowance of the spender on the wallet's tokens.
\<close>

record run =
  failure :: "error option"
  submitted :: "tx list"
  allowance :: int

text \<open>The two \<^verbatim>\<open>SendParam\<close>s a compose script builds, and what it computed on the way.\<close>

record route =
  hop1 :: SendParam
  hop2 :: SendParam
  composeValue :: int
  inputAmount :: int

section \<open>Exceptions and JavaScript idioms\<close>

definition bindE :: "error + 'a \<Rightarrow> ('a \<Rightarrow> error + 'b) \<Rightarrow> error + 'b" where
  "bindE m f = (case m of Inl e \<Rightarrow> Inl e | Inr x \<Rightarrow> f x)"

definition orThrow :: "call \<Rightarrow> 'a option \<Rightarrow> error + 'a" where
  "orThrow c x = (case x of None \<Rightarrow> Inl (Thrown c) | Some v \<Rightarrow> Inr v)"

text \<open>\<^verbatim>\<open>a || b\<close> on an optional string: \<^verbatim>\<open>undefined\<close> and \<^verbatim>\<open>''\<close> are falsy.\<close>

definition orElse :: "string option \<Rightarrow> string \<Rightarrow> string" where
  "orElse a b = (case a of None \<Rightarrow> b | Some s \<Rightarrow> if s = [] then b else s)"

definition AddressZero :: string where
  "AddressZero = ''0x0000000000000000000000000000000000000000''"

definition MaxUint256 :: int where
  "MaxUint256 = 2 ^ 256 - 1"

text \<open>
  \<^verbatim>\<open>BigNumber.div\<close> (BN.js \<^verbatim>\<open>div\<close>): the quotient truncated towards zero.  The scripts
  only divide by the constants 10000 and 100.
\<close>

definition bn_div :: "int \<Rightarrow> int \<Rightarrow> int" where
  "bn_div a b = sgn a * sgn b * (\<bar>a\<bar> div \<bar>b\<bar>)"

text \<open>\<^verbatim>\<open>BigNumber.toNumber\<close>: throws beyond 53 bits.\<close>

definition toNumber :: "int \<Rightarrow> int option" where
  "toNumber v = (if \<bar>v\<bar> < 2 ^ 53 then Some v else None)"

section \<open>The compose message codec\<close>

text \<open>
  \<^verbatim>\<open>ethers.utils.defaultAbiCoder.encode(['tuple(uint32,bytes32,uint256,uint256,bytes,bytes,bytes)',
  'uint256'], [[...], value])\<close>, following the contract ABI layout: 32-byte big-endian words,
  dynamic values behind offsets, byte strings length-prefixed and zero-padded.  A value that
  does not fit its type makes the coder throw.
\<close>

fun be_bytes :: "nat \<Rightarrow> nat \<Rightarrow> bytes" where
  "be_bytes 0 n = []"
| "be_bytes (Suc k) n = be_bytes k (n div 256) @ [word_of_nat (n mod 256)]"

definition be_val :: "bytes \<Rightarrow> nat" where
  "be_val bs = foldl (\<lambda>a b. a * 256 + unat b) 0 bs"

definition uint_coder :: "nat \<Rightarrow> int \<Rightarrow> bytes option" where
  "uint_coder bits v = (if 0 \<le> v \<and> v < 2 ^ bits then Some (be_bytes 32 (nat v)) else None)"

definition padding :: "nat \<Rightarrow> nat" where
  "padding n = (32 - n mod 32) mod 32"

definition bytes_coder :: "bytes \<Rightarrow> bytes option" where
  "bytes_coder b =
    (case uint_coder 256 (int (length b)) of
       None \<Rightarrow> None
     | Some w \<Rightarrow> Some (w @ b @ replicate (padding (length b)) 0))"

definition bytes32_coder :: "bytes \<Rightarrow> bytes option" where
  "bytes32_coder b = (if length b = 32 then Some b else None)"

definition encode_SendParam :: "SendParam \<Rightarrow> bytes option" where
  "encode_SendParam p =
    (case (uint_coder 32 (int (dstEid p)), bytes32_coder (to p), uint_coder 256 (amountLD p),
           uint_coder 256 (minAmountLD p), bytes_coder (extraOptions p),
           bytes_coder (composeMsg p), bytes_coder (oftCmd p)) of
       (Some w0, Some w1, Some w2, Some w3, Some t4, Some t5, Some t6) \<Rightarrow>
         (case (uint_coder 256 224, uint_coder 256 (224 + int (length t4)),
                uint_coder 256 (224 + int (length t4) + int (length t5))) of
            (Some o4, Some o5, Some o6) \<Rightarrow>
              Some (w0 @ w1 @ w2 @ w3 @ o4 @ o5 @ o6 @ t4 @ t5 @ t6)
          | _ \<Rightarrow> None)
     | _ \<Rightarrow> None)"

definition encode_compose :: "SendParam \<Rightarrow> int \<Rightarrow> bytes option" where
  "encode_compose p v =
    (case (encode_SendParam p, uint_coder 256 v) of
       (Some t, Some w) \<Rightarrow> Some (be_bytes 32 64 @ w @ t)
     | _ \<Rightarrow> None)"

text \<open>
  Modelled from the spec: the decoder of section 4.2, the inverse of the layout above, which no
  script contains.  A payload that is too short, whose offsets point outside it or whose
  endpoint id does not fit 32 bits is malformed (\<open>None\<close>).
\<close>

definition word_at :: "bytes \<Rightarrow> nat \<Rightarrow> nat option" where
  "word_at bs off =
    (if off + 32 \<le> length bs then Some (be_val (take 32 (drop off bs))) else None)"

definition bytes_at :: "bytes \<Rightarrow> nat \<Rightarrow> bytes option" where
  "bytes_at bs off =
    (case word_at bs off of
       None \<Rightarrow> None
     | Some n \<Rightarrow>
         if off + 32 + n \<le> length bs then Some (take n (drop (off + 32) bs)) else None)"

definition decode_SendParam :: "bytes \<Rightarrow> SendParam option" where
  "decode_SendParam bs =
    (case (word_at bs 0, word_at bs 64, word_at bs 96, word_at bs 128, word_at bs 160,
           word_at bs 192) of
       (Some e, Some a, Some m, Some o4, Some o5, Some o6) \<Rightarrow>
         (case (bytes_at bs o4, bytes_at bs o5, bytes_at bs o6) of
            (Some x, Some c, Some k) \<Rightarrow>
              if e < 2 ^ 32 then
                Some \<lparr>dstEid = e, to = take 32 (drop 32 bs), amountLD = int a,
                      minAmountLD = int m, extraOptions = x, composeMsg = c, oftCmd = k\<rparr>
              else None
          | _ \<Rightarrow> None)
     | _ \<Rightarrow> None)"

definition decode_compose :: "bytes \<Rightarrow> (SendParam \<times> int) option" where
  "decode_compose bs =
    (case (word_at bs 0, word_at bs 32) of
       (Some off, Some v) \<Rightarrow>
         (case decode_SendParam (drop off bs) of
            Some p \<Rightarrow> Some (p, int v)
          | None \<Rightarrow> None)
     | _ \<Rightarrow> None)"

text \<open>When the coder accepts a compose message, and the bytes it then returns.\<close>

definition encodable :: "SendParam \<Rightarrow> int \<Rightarrow> bool" where
  "encodable p v \<longleftrightarrow>
     dstEid p < 2 ^ 32 \<and> length (to p) = 32 \<and>
     0 \<le> amountLD p \<and> amountLD p < 2 ^ 256 \<and>
     0 \<le> minAmountLD p \<and> minAmountLD p < 2 ^ 256 \<and>
     288 + length (extraOptions p) + padding (length (extraOptions p))
         + length (composeMsg p) + padding (length (composeMsg p)) < 2 ^ 256 \<and>
     length (oftCmd p) < 2 ^ 256 \<and>
     0 \<le> v \<and> v < 2 ^ 256"

definition compose_bytes :: "SendParam \<Rightarrow> int \<Rightarrow> bytes" where
  "compose_bytes p v = (case encode_compose p v of Some bs \<Rightarrow> bs | None \<Rightarrow> [])"

section \<open>Decimal strings and JavaScript numbers\<close>

text \<open>
  \<^verbatim>\<open>parseUnits(value, decimals)\<close> of ethers 5 is \<^verbatim>\<open>parseFixed\<close>: the string must match
  \<^verbatim>\<open>/^-?[0-9.]+$/\<close>, must not be \<^verbatim>\<open>'.'\<close> and must hold at most one point; an empty whole
  or fractional part counts as \<^verbatim>\<open>'0'\<close>; trailing zeros of the fraction are dropped, and a
  fraction that is then longer than \<open>decimals\<close> makes the function throw (``fractional
  component exceeds decimals'').  The result is whole part times \<open>10 ^ decimals\<close> plus the
  fraction padded to \<open>decimals\<close> digits, negated after a leading minus.
\<close>

definition isDigit :: "char \<Rightarrow> bool" where
  "isDigit c \<longleftrightarrow> c \<in> set ''0123456789''"

definition digitValue :: "char \<Rightarrow> nat" where
  "digitValue c = of_char c - 48"

definition decimalValue :: "string \<Rightarrow> nat" where
  "decimalValue ds = foldl (\<lambda>a c. 10 * a + digitValue c) 0 ds"

definition parseFixed :: "string \<Rightarrow> nat \<Rightarrow> int option" where
  "parseFixed value' decimals' =
    (let negative = (take 1 value' = ''-'');
         v = (if negative then drop 1 value' else value');
         whole = takeWhile (\<lambda>c. c \<noteq> CHR ''.'') v;
         fraction = drop 1 (dropWhile (\<lambda>c. c \<noteq> CHR ''.'') v);
         trimmed = rev (dropWhile (\<lambda>c. c = CHR ''0'') (rev fraction))
     in if 256 < decimals' then None
        else if v = [] then None
        else if \<not> list_all (\<lambda>c. isDigit c \<or> c = CHR ''.'') v then None
        else if v = ''.'' then None
        else if 1 < length (filter (\<lambda>c. c = CHR ''.'') v) then None
        else if decimals' < length trimmed then None
        else
          let wei = int (decimalValue whole * 10 ^ decimals'
                         + decimalValue trimmed * 10 ^ (decimals' - length trimmed))
          in Some (if negative then - wei else wei))"

text \<open>
  JavaScript numbers are IEEE 754 binary64 values.  A non-negative one is kept here as the
  fraction \<open>(n, d)\<close> of naturals it equals (not reduced); \<open>double n d\<close> is the binary64
  value nearest to \<open>n / d\<close>, ties to the even significand: with \<open>e\<close> the binary exponent of
  \<open>n / d\<close> (at least \<open>-1022\<close>, below that the values are subnormal), the significand is
  \<open>n / d\<close> in units of \<open>2 ^ (e - 52)\<close>, rounded.  Overflow to \<^verbatim>\<open>Infinity\<close> is not
  modelled.
\<close>

fun bitlen :: "nat \<Rightarrow> nat" where
  "bitlen n = (if n = 0 then 0 else Suc (bitlen (n div 2)))"

fun declen :: "nat \<Rightarrow> nat" where
  "declen n = (if n = 0 then 0 else Suc (declen (n div 10)))"

declare bitlen.simps [simp del] declen.simps [simp del]

text \<open>\<open>\<lfloor>log\<^sub>2 (n / d)\<rfloor>\<close> for positive \<open>n\<close> and \<open>d\<close>.\<close>

definition ilog2 :: "nat \<Rightarrow> nat \<Rightarrow> int" where
  "ilog2 n d = (if d \<le> n then int (bitlen (n div d)) - 1
                else - int (bitlen ((d + n - 1) div n - 1)))"

definition roundHalfEven :: "nat \<Rightarrow> nat \<Rightarrow> nat" where
  "roundHalfEven n d =
    (let q = n div d; r = n mod d in
     if 2 * r < d then q else if d < 2 * r then q + 1 else if even q then q else q + 1)"

definition double :: "nat \<Rightarrow> nat \<Rightarrow> nat \<times> nat" where
  "double n d =
    (if n = 0 then (0, 1)
     else
       let e = max (ilog2 n d) (- 1022);
           p = 52 - e;
           m = roundHalfEven (n * 2 ^ nat p) (d * 2 ^ nat (- p))
       in (m * 2 ^ nat (- p), 2 ^ nat p))"

definition same :: "nat \<times> nat \<Rightarrow> nat \<times> nat \<Rightarrow> bool" where
  "same x y \<longleftrightarrow> fst x * snd y = fst y * snd x"

text \<open>\<^verbatim>\<open>x * y\<close> and \<^verbatim>\<open>1 - x\<close> (for \<open>x \<le> 1\<close>) on numbers: the exact result, rounded.\<close>

definition multiply :: "nat \<times> nat \<Rightarrow> nat \<times> nat \<Rightarrow> nat \<times> nat" where
  "multiply x y = double (fst x * fst y) (snd x * snd y)"

definition oneMinus :: "nat \<times> nat \<Rightarrow> nat \<times> nat" where
  "oneMinus x = double (snd x - fst x) (snd x)"

text \<open>
  \<^verbatim>\<open>Number.prototype.toString()\<close> (ECMAScript, Number::toString with radix 10) of a positive
  number \<open>v\<close>: with \<open>n\<close> such that \<open>10 ^ (n - 1) \<le> v < 10 ^ n\<close>, the digits are those of
  the integer \<open>s\<close> with the least number \<open>k\<close> of digits for which \<open>s * 10 ^ (n - k)\<close> is a
  decimal that reads back as \<open>v\<close>; of two such \<open>s\<close> the one nearer to \<open>v\<close>.  No
  binary64 value needs more than 17 digits.  The digits are laid out without exponent when
  \<open>-6 < n \<le> 21\<close>; the exponent notation used outside that range is not modelled (\<open>None\<close>).
\<close>

definition dexp :: "nat \<Rightarrow> nat \<Rightarrow> int" where
  "dexp n d = (if d \<le> n then int (declen (n div d))
               else 1 - int (declen ((d + n - 1) div n - 1)))"

definition scaled :: "nat \<times> nat \<Rightarrow> int \<Rightarrow> nat \<Rightarrow> nat \<times> nat" where
  "scaled v n k = (fst v * 10 ^ nat (int k - n), snd v * 10 ^ nat (n - int k))"

definition below :: "nat \<times> nat \<Rightarrow> int \<Rightarrow> nat \<Rightarrow> nat" where
  "below v n k = fst (scaled v n k) div snd (scaled v n k)"

definition nearest :: "nat \<times> nat \<Rightarrow> int \<Rightarrow> nat \<Rightarrow> nat" where
  "nearest v n k = roundHalfEven (fst (scaled v n k)) (snd (scaled v n k))"

definition candidate :: "nat \<times> nat \<Rightarrow> int \<Rightarrow> nat \<Rightarrow> nat \<Rightarrow> bool" where
  "candidate v n k s \<longleftrightarrow>
     10 ^ (k - 1) \<le> s \<and> s < 10 ^ k
     \<and> same (double (s * 10 ^ nat (n - int k)) (10 ^ nat (int k - n))) v"

function shortest :: "nat \<times> nat \<Rightarrow> int \<Rightarrow> nat \<Rightarrow> (nat \<times> nat) option" where
  "shortest v n k =
    (if 17 < k then None
     else if candidate v n k (below v n k) then
       Some (k, if candidate v n k (below v n k + 1) then nearest v n k else below v n k)
     else if candidate v n k (below v n k + 1) then Some (k, below v n k + 1)
     else shortest v n (k + 1))"
  by pat_completeness auto

termination shortest
  by (relation "measure (\<lambda>(v, n, k). 18 - k)") auto

declare shortest.simps [simp del]

fun decimalDigits :: "nat \<Rightarrow> string" where
  "decimalDigits s =
    (if s < 10 then [''0123456789'' ! s]
     else decimalDigits (s div 10) @ [''0123456789'' ! (s mod 10)])"

declare decimalDigits.simps [simp del]

fun layout :: "int \<Rightarrow> (nat \<times> nat) option \<Rightarrow> string option" where
  "layout n None = None"
| "layout n (Some (k, s)) =
    (if int k \<le> n \<and> n \<le> 21 then
       Some (decimalDigits s @ replicate (nat (n - int k)) CHR ''0'')
     else if 0 < n \<and> n \<le> 21 then
       Some (take (nat n) (decimalDigits s) @ ''.'' @ drop (nat n) (decimalDigits s))
     else if - 6 < n \<and> n \<le> 0 then
       Some (''0.'' @ replicate (nat (- n)) CHR ''0'' @ decimalDigits s)
     else None)"

definition numberToString :: "nat \<times> nat \<Rightarrow> string option" where
  "numberToString v =
    (if fst v = 0 then Some ''0''
     else layout (dexp (fst v) (snd v)) (shortest v (dexp (fst v) (snd v)) 1))"

text \<open>
  \<^verbatim>\<open>parseFloat\<close> on a decimal literal without sign and exponent (digits, optionally a
  point and more digits, at least one digit in all), the form of every amount in the
  repository: the literal's value, rounded.  Other strings are not modelled (\<open>None\<close>).
\<close>

definition decimalLiteral :: "string \<Rightarrow> (nat \<times> nat) option" where
  "decimalLiteral s =
    (let w = takeWhile isDigit s; rest = dropWhile isDigit s in
     if rest = [] then (if w = [] then None else Some (decimalValue w, 1))
     else if hd rest = CHR ''.'' \<and> list_all isDigit (tl rest) \<and> \<not> (w = [] \<and> tl rest = []) then
       Some (decimalValue (w @ tl rest), 10 ^ length (tl rest))
     else None)"

text \<open>
  \<^verbatim>\<open>(parseFloat(amount) * (1 - slippageBps / 10000)).toString()\<close> with
  \<^verbatim>\<open>slippageBps = 50\<close>, in binary64 arithmetic.
\<close>

definition slippageOf :: "nat \<times> nat \<Rightarrow> string option" where
  "slippageOf x =
    numberToString (multiply (double (fst x) (snd x)) (oneMinus (double 50 10000)))"

definition doubleSlippage :: "string \<Rightarrow> string option" where
  "doubleSlippage s = Option.bind (decimalLiteral s) slippageOf"

section \<open>The slippage calculator\<close>

text \<open>
  \<^verbatim>\<open>calculateMinAmount\<close> of script 11:
  \<^verbatim>\<open>return amount.mul(10000 - slippageBps).div(10000)\<close>.
\<close>

definition calculateMinAmount :: "int \<Rightarrow> int \<Rightarrow> int" where
  "calculateMinAmount amount' slippageBps = bn_div (amount' * (10000 - slippageBps)) 10000"

text \<open>
  ``Calculate minAmount with slippage'' of scripts 1, 7 and 8: an explicit
  \<^verbatim>\<open>CONFIG.transaction.minAmount\<close> is parsed into units, otherwise 50 basis points are taken
  off the expected output.
\<close>

definition minAmountOut :: "world \<Rightarrow> CONFIG \<Rightarrow> int \<Rightarrow> nat \<Rightarrow> error + int" where
  "minAmountOut w c expectedOutputAmount outDecimals =
    (case minAmount c of
       None \<Rightarrow> Inr (bn_div (expectedOutputAmount * (10000 - 50)) 10000)
     | Some s \<Rightarrow>
         if s = [] then Inr (bn_div (expectedOutputAmount * (10000 - 50)) 10000)
         else orThrow ParseUnits (parseUnits w s outDecimals))"

text \<open>
  ``Calculate first hop min amount with slippage'' of scripts 1, 7 and 8:
  \<^verbatim>\<open>parseUnits(CONFIG.transaction.minAmount || (parseFloat(CONFIG.transaction.amount) *
  (1 - slippageBps / 10000)).toString(), decimals)\<close>.
\<close>

definition firstHopMinAmount :: "world \<Rightarrow> CONFIG \<Rightarrow> nat \<Rightarrow> error + int" where
  "firstHopMinAmount w c inDecimals =
    orThrow ParseUnits (parseUnits w (orElse (minAmount c) (floatSlippage w (amount c))) inDecimals)"

section \<open>Approval, quoting and submission\<close>

definition aborted :: "error \<Rightarrow> tx list \<Rightarrow> int \<Rightarrow> run" where
  "aborted e txs a = \<lparr>failure = Some e, submitted = txs, allowance = a\<rparr>"

text \<open>
  ``Handle approval for ERC20 tokens'' of scripts 1, 5 and 7.  The whole block sits in a
  \<^verbatim>\<open>try\<close> whose \<^verbatim>\<open>catch\<close> only logs.  A confirmed \<^verbatim>\<open>approve(spender, amount)\<close> sets the
  allowance to \<open>amount\<close> (ERC-20).
\<close>

definition handleApproval :: "world \<Rightarrow> string \<Rightarrow> string \<Rightarrow> int \<Rightarrow> int \<Rightarrow> tx list \<times> int" where
  "handleApproval w oft underlyingToken units a =
    (if underlyingToken = AddressZero then ([], a)
     else
       (case approvalRequired w oft of
          None \<Rightarrow> ([], a)
        | Some required \<Rightarrow>
            if \<not> required then ([], a)
            else if allowanceReverts w then ([], a)
            else if a < units then
              (case approve w underlyingToken oft units of
                 None \<Rightarrow> ([], a)
               | Some confirmed \<Rightarrow>
                   ([ApproveTx underlyingToken oft units], if confirmed then units else a))
            else ([], a)))"

text \<open>``Step 6: Check and Approve USDC'' of script 11: not guarded, approves the maximum.\<close>

definition checkAndApprove11 :: "world \<Rightarrow> CONFIG11 \<Rightarrow> int \<Rightarrow> int \<Rightarrow> error option \<times> tx list \<times> int" where
  "checkAndApprove11 w c usdcAmount a =
    (if allowanceReverts w then (Some (Thrown Allowance), [], a)
     else if a < usdcAmount then
       (case approve w (base_usdc c) (base_stargatePoolUSDC c) MaxUint256 of
          None \<Rightarrow> (Some (Thrown ApproveCall), [], a)
        | Some confirmed \<Rightarrow>
            if confirmed then
              (None, [ApproveTx (base_usdc c) (base_stargatePoolUSDC c) MaxUint256], MaxUint256)
            else
              (Some (Thrown Wait), [ApproveTx (base_usdc c) (base_stargatePoolUSDC c) MaxUint256], a))
     else (None, [], a))"

definition sendAndWait ::
  "world \<Rightarrow> string \<Rightarrow> argument \<Rightarrow> MessagingFee \<Rightarrow> int \<Rightarrow> tx list \<Rightarrow> int \<Rightarrow> run" where
  "sendAndWait w oft x fee v txs a =
    (case send w oft x fee (wallet w) v of
       None \<Rightarrow> aborted (Thrown SendCall) txs a
     | Some confirmed \<Rightarrow>
         \<lparr>failure = (if confirmed then None else Some (Thrown Wait)),
          submitted = txs @ [SendTx oft (tupleOf x) fee (wallet w) v], allowance = a\<rparr>)"

text \<open>
  \<^verbatim>\<open>const txValue = isNativeToken ? msgFee.nativeFee.add(inputAmountUnits) : msgFee.nativeFee\<close>
\<close>

definition txValue :: "bool \<Rightarrow> MessagingFee \<Rightarrow> int \<Rightarrow> int" where
  "txValue isNativeToken msgFee inputAmountUnits =
    (if isNativeToken then nativeFee msgFee + inputAmountUnits else nativeFee msgFee)"

text \<open>``Quote the transaction'' and ``Send the transaction'' of scripts 1, 5 and 7.\<close>

definition quoteAndSend ::
  "world \<Rightarrow> string \<Rightarrow> argument \<Rightarrow> bool \<Rightarrow> int \<Rightarrow> tx list \<Rightarrow> int \<Rightarrow> run" where
  "quoteAndSend w oft x isNativeToken inputAmountUnits txs a =
    (case quoteSend w oft x of
       None \<Rightarrow> aborted (Thrown QuoteSend) txs a
     | Some msgFee \<Rightarrow>
         sendAndWait w oft x msgFee (txValue isNativeToken msgFee inputAmountUnits) txs a)"

text \<open>
  The tail shared by scripts 1 and 7: token probe, approval, quote, send.  \<open>passed\<close> is the
  way the script hands over its first-hop \<^verbatim>\<open>SendParam\<close>: \<open>Object\<close> in script 1,
  \<open>Array\<close> in script 7.
\<close>

definition approveQuoteSend ::
  "world \<Rightarrow> string \<Rightarrow> (SendParam \<Rightarrow> argument) \<Rightarrow> route \<Rightarrow> int \<Rightarrow> run" where
  "approveQuoteSend w oft passed r a =
    (case token w oft of
       None \<Rightarrow> aborted (Thrown Token) [] a
     | Some underlyingToken \<Rightarrow>
         (case handleApproval w oft underlyingToken (inputAmount r) a of
            (txs, a') \<Rightarrow>
              quoteAndSend w oft (passed (hop1 r)) (underlyingToken = AddressZero)
                (inputAmount r) txs a'))"

section \<open>Script 11: Base to Katana through the Ethereum vault\<close>

text \<open>
  \<^verbatim>\<open>main()\<close> of \<^verbatim>\<open>11-base-to-katana-atomic.ts\<close>, statement by statement, in two
  definitions: \<open>plan11\<close> is the configuration check and steps 1 to 4 (preview, second
  \<^verbatim>\<open>SendParam\<close>, its quote and the 20 percent buffer, compose message, options, first
  \<^verbatim>\<open>SendParam\<close>); \<open>main11\<close> adds steps 5 to 7 (first-hop quote, approval, send).  Every
  \<^verbatim>\<open>await\<close> of this script is outside any \<^verbatim>\<open>try\<close>.  The last argument of \<open>main11\<close> is
  the allowance the pool holds on the wallet's USDC when the script starts.
\<close>

definition plan11 :: "world \<Rightarrow> CONFIG11 \<Rightarrow> error + route" where
  "plan11 w c =
    (if tx_privateKey c = ''YOUR_PRIVATE_KEY_HERE'' then Inl PleaseSetConfig
     else
       bindE (orThrow ParseUnits (parseUnits w (tx_usdcAmount c) 6)) (\<lambda>usdcAmount.
       bindE (orThrow PreviewDeposit (previewDeposit w (ethereum_vault c) usdcAmount)) (\<lambda>expectedShares.
       bindE (orThrow Decimals (decimals w (ethereum_vault c))) (\<lambda>shareDecimals.
       bindE (orThrow AddressToBytes32 (addressToBytes32 w (tx_recipientAddress c))) (\<lambda>recipient.
       let minShares = calculateMinAmount expectedShares (tx_slippageBps c);
           secondHopSendParam =
             \<lparr>dstEid = katana_eid c, to = recipient, amountLD = expectedShares,
              minAmountLD = minShares, extraOptions = addExecutorLzReceiveOption w 100000 0,
              composeMsg = [], oftCmd = []\<rparr>
       in
       bindE (orThrow HubQuoteSend
                (quoteSend w (ethereum_shareOFT c) (Array secondHopSendParam))) (\<lambda>secondHopQuote.
       let secondHopFeeWithBuffer = bn_div (nativeFee secondHopQuote * 120) 100 in
       bindE (orThrow AbiEncode (encode_compose secondHopSendParam secondHopFeeWithBuffer)) (\<lambda>composeMsg'.
       bindE (orThrow ToNumber (toNumber secondHopFeeWithBuffer)) (\<lambda>composeValueNumber.
       bindE (orThrow ComposeOption
                (addExecutorComposeOption w 0 (tx_composeGas c) composeValueNumber)) (\<lambda>extraOptions'.
       bindE (orThrow AddressToBytes32 (addressToBytes32 w (ethereum_composer c))) (\<lambda>composer.
       let minUSDC = calculateMinAmount usdcAmount (tx_slippageBps c) in
       Inr \<lparr>hop1 = \<lparr>dstEid = ethereum_eid c, to = composer, amountLD = usdcAmount,
                     minAmountLD = minUSDC, extraOptions = extraOptions',
                     composeMsg = composeMsg', oftCmd = []\<rparr>,
            hop2 = secondHopSendParam,
            composeValue = secondHopFeeWithBuffer,
            inputAmount = usdcAmount\<rparr>))))))))))"

definition main11 :: "world \<Rightarrow> CONFIG11 \<Rightarrow> int \<Rightarrow> run" where
  "main11 w c a =
    (case plan11 w c of
       Inl e \<Rightarrow> aborted e [] a
     | Inr r \<Rightarrow>
         (case quoteSend w (base_stargatePoolUSDC c) (Array (hop1 r)) of
            None \<Rightarrow> aborted (Thrown QuoteSend) [] a
          | Some firstHopQuote \<Rightarrow>
              (case checkAndApprove11 w c (inputAmount r) a of
                 (Some e, txs, a') \<Rightarrow> aborted e txs a'
               | (None, txs, a') \<Rightarrow>
                   sendAndWait w (base_stargatePoolUSDC c) (Array (hop1 r))
                     \<lparr>nativeFee = nativeFee firstHopQuote, lzTokenFee = 0\<rparr>
                     (nativeFee firstHopQuote) txs a')))"

section \<open>Script 1: asset deposit from any chain to any other chain\<close>

text \<open>
  \<^verbatim>\<open>main()\<close> of \<^verbatim>\<open>1-asset-deposit-cross-chain.ts\<close>: \<open>plan1\<close> is the validation and
  everything up to the first-hop \<^verbatim>\<open>SendParam\<close> (lines 84 to 226), \<open>main1\<close> continues with
  the token probe, the approval block, the quote and the send (lines 228 to 275).  Both
  \<^verbatim>\<open>SendParam\<close>s are object literals and are passed as such to \<^verbatim>\<open>quoteSend\<close> (lines 174
  and 264) and \<^verbatim>\<open>send\<close> (line 271); the compose option is built with
  \<^verbatim>\<open>options.addExecutorLzComposeOption\<close> (line 207).
\<close>

text \<open>``Quote second hop'' (lines 166 to 186).\<close>

definition quoteSecondHop :: "world \<Rightarrow> CONFIG \<Rightarrow> SendParam \<Rightarrow> nat \<Rightarrow> nat \<Rightarrow> int" where
  "quoteSecondHop w c secondHopSendParam dstEid' hubEid' =
    (let configured = (case lzComposeValue c of None \<Rightarrow> 0 | Some v \<Rightarrow> v);
         quoted =
           (if lzComposeValue c = None \<and> dstEid' \<noteq> hubEid' then
              (case quoteSend w (hub_shareOFT c) (Object secondHopSendParam) of
                 Some quoteFee \<Rightarrow> nativeFee quoteFee
               | None \<Rightarrow> 25000000000000000)
            else configured)
     in if dstEid' = hubEid' then 0 else quoted)"

definition plan1 :: "world \<Rightarrow> CONFIG \<Rightarrow> error + route" where
  "plan1 w c =
    (if privateKey c = ''YOUR_PRIVATE_KEY_HERE'' then Inl PleaseSetConfig
     else if recipientAddress c = ''0xYourRecipientAddressHere'' then Inl PleaseSetConfig
     else if hub_composer c = ''0xYourOVaultComposerAddress'' then Inl PleaseSetConfig
     else if srcChain c = hubChain c then Inl SourceIsHub
     else
       bindE (orThrow ChainLookup (chains c (srcChain c))) (\<lambda>srcChainConfig.
       bindE (orThrow ChainLookup (chains c (hubChain c))) (\<lambda>hubChainConfig.
       bindE (orThrow ChainLookup (chains c (dstChain c))) (\<lambda>dstChainConfig.
       bindE (orThrow Asset (asset w (hub_vault c))) (\<lambda>assetAddress.
       bindE (orThrow Decimals (decimals w assetAddress)) (\<lambda>assetDecimals.
       bindE (orThrow Decimals (decimals w (hub_vault c))) (\<lambda>shareDecimals.
       bindE (orThrow ParseUnits (parseUnits w (amount c) assetDecimals)) (\<lambda>inputAmountUnits.
       let expectedOutputAmount =
             (case previewDeposit w (hub_vault c) inputAmountUnits of
                Some previewedShares \<Rightarrow> previewedShares
              | None \<Rightarrow> inputAmountUnits)
       in
       bindE (minAmountOut w c expectedOutputAmount shareDecimals) (\<lambda>minAmountOut'.
       bindE (orThrow AddressToBytes32 (addressToBytes32 w (recipientAddress c))) (\<lambda>recipient.
       let secondHopSendParam =
             \<lparr>dstEid = eid dstChainConfig, to = recipient, amountLD = expectedOutputAmount,
              minAmountLD = minAmountOut', extraOptions = addExecutorLzReceiveOption w 100000 0,
              composeMsg = [], oftCmd = []\<rparr>;
           lzComposeValue' =
             quoteSecondHop w c secondHopSendParam (eid dstChainConfig) (eid hubChainConfig)
       in
       bindE (orThrow AbiEncode (encode_compose secondHopSendParam lzComposeValue')) (\<lambda>composeMsg'.
       bindE (orThrow ComposeOption
                (addExecutorLzComposeOption w 0 (lzComposeGas c) lzComposeValue')) (\<lambda>extraOptions'.
       bindE (firstHopMinAmount w c assetDecimals) (\<lambda>firstHopMinAmount'.
       bindE (orThrow AddressToBytes32 (addressToBytes32 w (hub_composer c))) (\<lambda>composer.
       Inr \<lparr>hop1 = \<lparr>dstEid = eid hubChainConfig, to = composer, amountLD = inputAmountUnits,
                     minAmountLD = firstHopMinAmount', extraOptions = extraOptions',
                     composeMsg = composeMsg', oftCmd = []\<rparr>,
            hop2 = secondHopSendParam,
            composeValue = lzComposeValue',
            inputAmount = inputAmountUnits\<rparr>))))))))))))))"

definition main1 :: "world \<Rightarrow> CONFIG \<Rightarrow> int \<Rightarrow> run" where
  "main1 w c a =
    (case plan1 w c of
       Inl e \<Rightarrow> aborted e [] a
     | Inr r \<Rightarrow> approveQuoteSend w (source_assetOFT c) Object r a)"

section \<open>Scripts 7 and 8: from a spoke to the hub, conversion on the hub\<close>

text \<open>
  Script 7 (spoke to hub deposit).  Of its two copies in the repository this is the one that
  calls \<^verbatim>\<open>addExecutorComposeOption\<close>, passes the tuples as arrays and wraps quote and
  send in a \<^verbatim>\<open>try\<close> that rethrows; the other calls \<^verbatim>\<open>addExecutorLzComposeOption\<close> and
  passes objects, as script 1 does.  The destination is the hub: the nested
  \<^verbatim>\<open>secondHopSendParam\<close> names the hub's own endpoint id and \<^verbatim>\<open>lzComposeValue\<close> is 0
  (``No second cross-chain hop since destination is hub'').
\<close>

definition plan7 :: "world \<Rightarrow> CONFIG \<Rightarrow> error + route" where
  "plan7 w c =
    (if privateKey c = ''YOUR_PRIVATE_KEY_HERE'' then Inl PleaseSetConfig
     else if recipientAddress c = ''0xYourRecipientAddressHere'' then Inl PleaseSetConfig
     else if hub_composer c = ''0xYourOVaultComposerAddress'' then Inl PleaseSetConfig
     else
       bindE (orThrow ChainLookup (chains c (srcChain c))) (\<lambda>srcChainConfig.
       bindE (orThrow ChainLookup (chains c (hubChain c))) (\<lambda>hubChainConfig.
       bindE (orThrow Asset (asset w (hub_vault c))) (\<lambda>assetAddress.
       bindE (orThrow Decimals (decimals w assetAddress)) (\<lambda>assetDecimals.
       bindE (orThrow Decimals (decimals w (hub_vault c))) (\<lambda>shareDecimals.
       bindE (orThrow ParseUnits (parseUnits w (amount c) assetDecimals)) (\<lambda>inputAmountUnits.
       let expectedOutputAmount =
             (case previewDeposit w (hub_vault c) inputAmountUnits of
                Some previewedShares \<Rightarrow> previewedShares
              | None \<Rightarrow> inputAmountUnits)
       in
       bindE (minAmountOut w c expectedOutputAmount shareDecimals) (\<lambda>minAmountOut'.
       bindE (orThrow AddressToBytes32 (addressToBytes32 w (recipientAddress c))) (\<lambda>recipient.
       let secondHopSendParam =
             \<lparr>dstEid = eid hubChainConfig, to = recipient, amountLD = expectedOutputAmount,
              minAmountLD = minAmountOut', extraOptions = addExecutorLzReceiveOption w 100000 0,
              composeMsg = [], oftCmd = []\<rparr>;
           lzComposeValue' = 0
       in
       bindE (orThrow AbiEncode (encode_compose secondHopSendParam lzComposeValue')) (\<lambda>composeMsg'.
       bindE (orThrow ComposeOption
                (addExecutorComposeOption w 0 (lzComposeGas c) lzComposeValue')) (\<lambda>extraOptions'.
       bindE (firstHopMinAmount w c assetDecimals) (\<lambda>firstHopMinAmount'.
       bindE (orThrow AddressToBytes32 (addressToBytes32 w (hub_composer c))) (\<lambda>composer.
       Inr \<lparr>hop1 = \<lparr>dstEid = eid hubChainConfig, to = composer, amountLD = inputAmountUnits,
                     minAmountLD = firstHopMinAmount', extraOptions = extraOptions',
                     composeMsg = composeMsg', oftCmd = []\<rparr>,
            hop2 = secondHopSendParam,
            composeValue = lzComposeValue',
            inputAmount = inputAmountUnits\<rparr>)))))))))))))"

definition main7 :: "world \<Rightarrow> CONFIG \<Rightarrow> int \<Rightarrow> run" where
  "main7 w c a =
    (case plan7 w c of
       Inl e \<Rightarrow> aborted e [] a
     | Inr r \<Rightarrow> approveQuoteSend w (source_assetOFT c) Array r a)"

text \<open>
  Script 8 (spoke to hub redemption): shares in, \<^verbatim>\<open>previewRedeem\<close>, no approval
  (``shares are always ERC20''), the value attached is the native fee.
\<close>

definition plan8 :: "world \<Rightarrow> CONFIG \<Rightarrow> error + route" where
  "plan8 w c =
    (if privateKey c = ''YOUR_PRIVATE_KEY_HERE'' then Inl PleaseSetConfig
     else if recipientAddress c = ''0xYourRecipientAddressHere'' then Inl PleaseSetConfig
     else if hub_composer c = ''0xYourOVaultComposerAddress'' then Inl PleaseSetConfig
     else
       bindE (orThrow ChainLookup (chains c (srcChain c))) (\<lambda>srcChainConfig.
       bindE (orThrow ChainLookup (chains c (hubChain c))) (\<lambda>hubChainConfig.
       bindE (orThrow Asset (asset w (hub_vault c))) (\<lambda>assetAddress.
       bindE (orThrow Decimals (decimals w assetAddress)) (\<lambda>assetDecimals.
       bindE (orThrow Decimals (decimals w (hub_vault c))) (\<lambda>shareDecimals.
       bindE (orThrow ParseUnits (parseUnits w (amount c) shareDecimals)) (\<lambda>inputAmountUnits.
       let expectedOutputAmount =
             (case previewRedeem w (hub_vault c) inputAmountUnits of
                Some previewedAssets \<Rightarrow> previewedAssets
              | None \<Rightarrow> inputAmountUnits)
       in
       bindE (minAmountOut w c expectedOutputAmount assetDecimals) (\<lambda>minAmountOut'.
       bindE (orThrow AddressToBytes32 (addressToBytes32 w (recipientAddress c))) (\<lambda>recipient.
       let secondHopSendParam =
             \<lparr>dstEid = eid hubChainConfig, to = recipient, amountLD = expectedOutputAmount,
              minAmountLD = minAmountOut', extraOptions = addExecutorLzReceiveOption w 100000 0,
              composeMsg = [], oftCmd = []\<rparr>;
           lzComposeValue' = 0
       in
       bindE (orThrow AbiEncode (encode_compose secondHopSendParam lzComposeValue')) (\<lambda>composeMsg'.
       bindE (orThrow ComposeOption
                (addExecutorComposeOption w 0 (lzComposeGas c) lzComposeValue')) (\<lambda>extraOptions'.
       bindE (firstHopMinAmount w c shareDecimals) (\<lambda>firstHopMinAmount'.
       bindE (orThrow AddressToBytes32 (addressToBytes32 w (hub_composer c))) (\<lambda>composer.
       Inr \<lparr>hop1 = \<lparr>dstEid = eid hubChainConfig, to = composer, amountLD = inputAmountUnits,
                     minAmountLD = firstHopMinAmount', extraOptions = extraOptions',
                     composeMsg = composeMsg', oftCmd = []\<rparr>,
            hop2 = secondHopSendParam,
            composeValue = lzComposeValue',
            inputAmount = inputAmountUnits\<rparr>)))))))))))))"

definition main8 :: "world \<Rightarrow> CONFIG \<Rightarrow> int \<Rightarrow> run" where
  "main8 w c a =
    (case plan8 w c of
       Inl e \<Rightarrow> aborted e [] a
     | Inr r \<Rightarrow>
         (case quoteSend w (source_shareOFT c) (Array (hop1 r)) of
            None \<Rightarrow> aborted (Thrown QuoteSend) [] a
          | Some msgFee \<Rightarrow>
              sendAndWait w (source_shareOFT c) (Array (hop1 r)) msgFee (nativeFee msgFee) [] a))"

section \<open>Script 5: assets from the hub to a spoke\<close>

text \<open>
  One hop, no compose message.  The approval block runs before the \<^verbatim>\<open>SendParam\<close> is built.
\<close>

definition sendParam5 :: "world \<Rightarrow> CONFIG \<Rightarrow> chain \<Rightarrow> int \<Rightarrow> nat \<Rightarrow> error + SendParam" where
  "sendParam5 w c dstChainConfig amountUnits decimals' =
    bindE (case minAmount c of
             None \<Rightarrow> Inr (bn_div (amountUnits * (10000 - 50)) 10000)
           | Some s \<Rightarrow>
               if s = [] then Inr (bn_div (amountUnits * (10000 - 50)) 10000)
               else orThrow ParseUnits (parseUnits w s decimals')) (\<lambda>minAmount'.
    bindE (orThrow AddressToBytes32 (addressToBytes32 w (recipientAddress c))) (\<lambda>recipient.
    Inr \<lparr>dstEid = eid dstChainConfig, to = recipient, amountLD = amountUnits,
         minAmountLD = minAmount', extraOptions = addExecutorLzReceiveOption w (lzReceiveGas c) 0,
         composeMsg = [], oftCmd = []\<rparr>))"

definition main5 :: "world \<Rightarrow> CONFIG \<Rightarrow> int \<Rightarrow> run" where
  "main5 w c a =
    (if privateKey c = ''YOUR_PRIVATE_KEY_HERE'' then aborted PleaseSetConfig [] a
     else if recipientAddress c = ''0xYourRecipientAddressHere'' then aborted PleaseSetConfig [] a
     else if hubAssetOFT c = ''0xYourAssetOFTOnHubAddress'' then aborted PleaseSetConfig [] a
     else
       (case (chains c (srcChain c), chains c (dstChain c)) of
          (Some srcChainConfig, Some dstChainConfig) \<Rightarrow>
            (case token w (hubAssetOFT c) of
               None \<Rightarrow> aborted (Thrown Token) [] a
             | Some underlyingToken \<Rightarrow>
                 (case (if underlyingToken = AddressZero then Some 18
                        else decimals w underlyingToken) of
                    None \<Rightarrow> aborted (Thrown Decimals) [] a
                  | Some decimals' \<Rightarrow>
                      (case parseUnits w (amount c) decimals' of
                         None \<Rightarrow> aborted (Thrown ParseUnits) [] a
                       | Some amountUnits \<Rightarrow>
                           (case handleApproval w (hubAssetOFT c) underlyingToken amountUnits a of
                              (txs, a') \<Rightarrow>
                                (case sendParam5 w c dstChainConfig amountUnits decimals' of
                                   Inl e \<Rightarrow> aborted e txs a'
                                 | Inr sendParam \<Rightarrow>
                                     quoteAndSend w (hubAssetOFT c) (Array sendParam)
                                       (underlyingToken = AddressZero) amountUnits txs a')))))
        | _ \<Rightarrow> aborted (Thrown ChainLookup) [] a))"

section \<open>Reading a run\<close>

fun sends :: "tx list \<Rightarrow> tx list" where
  "sends [] = []"
| "sends (ApproveTx t s v # xs) = sends xs"
| "sends (SendTx oft p fee refund v # xs) = SendTx oft p fee refund v # sends xs"

fun approvals :: "tx list \<Rightarrow> tx list" where
  "approvals [] = []"
| "approvals (ApproveTx t s v # xs) = ApproveTx t s v # approvals xs"
| "approvals (SendTx oft p fee refund v # xs) = approvals xs"

text \<open>
  The instruction nested in a hop's compose payload and the value attached for it, and whether
  that instruction leaves the hub again (a downstream hop towards another endpoint).
\<close>

definition nested :: "SendParam \<Rightarrow> (SendParam \<times> int) option" where
  "nested p = decode_compose (composeMsg p)"

definition hasDownstreamHop :: "nat \<Rightarrow> SendParam \<Rightarrow> bool" where
  "hasDownstreamHop hubEid p =
    (case nested p of None \<Rightarrow> False | Some (h, v) \<Rightarrow> dstEid h \<noteq> hubEid)"

text \<open>The nested instructions, with their values, of the sends of a run.\<close>

fun nestedHops :: "tx list \<Rightarrow> (SendParam \<times> int) list" where
  "nestedHops [] = []"
| "nestedHops (ApproveTx t s v # xs) = nestedHops xs"
| "nestedHops (SendTx oft p fee refund v # xs) =
    (case nested p of None \<Rightarrow> nestedHops xs | Some hv \<Rightarrow> hv # nestedHops xs)"

section \<open>Example worlds and configurations\<close>

text \<open>
  A world in which the libraries behave as the versions the scripts import do and every
  contract answers: six decimals everywhere, a vault that gives two shares per asset, a
  hub-side quote of 1000 wei and a source-side quote of 3000 wei, an ERC-20 underlying token
  that needs approval.

  \<^verbatim>\<open>parseUnits\<close> and the double arithmetic of the first-hop minimum are computed as in the
  section on decimal strings and numbers.  (For an amount that is not a plain decimal literal
  the printed product is taken to be \<^verbatim>\<open>'NaN'\<close>, which is what JavaScript prints when
  \<^verbatim>\<open>parseFloat\<close> finds no number; no statement below uses such an amount.)

  ethers 5 looks the fields of an object passed for a tuple up by the names of the tuple's
  components.  The ABI fragments of the scripts declare
  \<^verbatim>\<open>(uint32,bytes32,uint256,uint256,bytes,bytes,bytes)\<close> without names, so no field is
  found and a call that passes an object throws before anything reaches the node; a tuple
  passed as an array is encoded, unless a number does not fit its type or the recipient is not
  32 bytes long.  The \<^verbatim>\<open>Options\<close> class of \<^verbatim>\<open>@layerzerolabs/lz-v2-utilities\<close>
  has \<^verbatim>\<open>addExecutorComposeOption\<close> and no method \<^verbatim>\<open>addExecutorLzComposeOption\<close>:
  calling the latter throws a \<^verbatim>\<open>TypeError\<close>.
\<close>

definition tupleFits :: "SendParam \<Rightarrow> bool" where
  "tupleFits p \<longleftrightarrow>
     dstEid p < 2 ^ 32 \<and> length (to p) = 32 \<and>
     0 \<le> amountLD p \<and> amountLD p < 2 ^ 256 \<and>
     0 \<le> minAmountLD p \<and> minAmountLD p < 2 ^ 256"

definition world0 :: world where
  "world0 =
    \<lparr>parseUnits = parseFixed,
     floatSlippage = (\<lambda>s. case doubleSlippage s of Some t \<Rightarrow> t | None \<Rightarrow> ''NaN''),
     addressToBytes32 = (\<lambda>s. Some (replicate 31 0 @ [word_of_nat (length s)])),
     addExecutorLzReceiveOption = (\<lambda>gas v. [0, 3]),
     addExecutorComposeOption = (\<lambda>i gas v. Some [0, 3]),
     addExecutorLzComposeOption = (\<lambda>i gas v. None),
     wallet = ''0xWallet'',
     asset = (\<lambda>vault. Some ''0xAsset''),
     decimals = (\<lambda>t. Some 6),
     previewDeposit = (\<lambda>vault x. Some (2 * x)),
     previewRedeem = (\<lambda>vault x. Some (x div 2)),
     token = (\<lambda>oft. Some ''0xToken''),
     approvalRequired = (\<lambda>oft. Some True),
     quoteSend = (\<lambda>oft x. case x of
                     Object p \<Rightarrow> None
                   | Array p \<Rightarrow>
                       if tupleFits p then
                         Some \<lparr>nativeFee = (if oft = ''0xHubShareOFT'' then 1000 else 3000),
                               lzTokenFee = 0\<rparr>
                       else None),
     send = (\<lambda>oft x fee refund v. case x of
                Object p \<Rightarrow> None
              | Array p \<Rightarrow> if tupleFits p then Some True else None),
     allowanceReverts = False,
     approve = (\<lambda>t spender v. Some True)\<rparr>"

definition config0 :: CONFIG where
  "config0 =
    \<lparr>privateKey = ''0xKey'',
     chains = (\<lambda>n. if n = ''arbitrumSepolia'' then Some \<lparr>eid = 40231, name = ''Arbitrum Sepolia''\<rparr>
                   else if n = ''optimismSepolia'' then Some \<lparr>eid = 40232, name = ''Optimism Sepolia''\<rparr>
                   else if n = ''baseSepolia'' then Some \<lparr>eid = 40245, name = ''Base Sepolia''\<rparr>
                   else None),
     hub_vault = ''0xVault'',
     hub_composer = ''0xComposer'',
     hub_shareOFT = ''0xHubShareOFT'',
     source_assetOFT = ''0xSourceAssetOFT'',
     source_shareOFT = ''0xSourceShareOFT'',
     hubAssetOFT = ''0xHubAssetOFT'',
     srcChain = ''baseSepolia'',
     dstChain = ''optimismSepolia'',
     hubChain = ''arbitrumSepolia'',
     amount = ''1.0'',
     recipientAddress = ''0xRecipient'',
     minAmount = None,
     lzComposeGas = 395000,
     lzComposeValue = None,
     lzReceiveGas = 100000\<rparr>"

definition config11 :: CONFIG11 where
  "config11 =
    \<lparr>base_usdc = ''0x833589fcd6edb6e08f4c7c32d4f71b54bda02913'',
     base_stargatePoolUSDC = ''0x27a16dc786820B16E5c9028b75B99F6f604b5d26'',
     ethereum_eid = 30101,
     ethereum_composer = ''0x8A35897fda9E024d2aC20a937193e099679eC477'',
     ethereum_vault = ''0x53E82ABbb12638F09d9e624578ccB666217a765e'',
     ethereum_shareOFT = ''0xHubShareOFT'',
     katana_eid = 30375,
     tx_privateKey = ''0xKey'',
     tx_recipientAddress = ''0xRecipient'',
     tx_usdcAmount = ''0.2'',
     tx_composeGas = 1000000,
     tx_slippageBps = 50\<rparr>"

text \<open>The same world with a hub-side (second hop) quote that throws.\<close>

definition world_noInnerQuote :: world where
  "world_noInnerQuote =
    world0\<lparr>quoteSend := (\<lambda>oft x. if oft = ''0xHubShareOFT'' then None
                                   else quoteSend world0 oft x)\<rparr>"

text \<open>The same world with an \<^verbatim>\<open>approvalRequired()\<close> probe that throws.\<close>

definition world_noProbe :: world where
  "world_noProbe = world0\<lparr>approvalRequired := (\<lambda>oft. None)\<rparr>"

text \<open>The same world with a source-side (first hop) quote that throws.\<close>

definition world_noOuterQuote :: world where
  "world_noOuterQuote =
    world0\<lparr>quoteSend := (\<lambda>oft x. if oft = ''0xHubShareOFT'' then quoteSend world0 oft x
                                   else None)\<rparr>"

text \<open>The same world with the chain's native currency as the underlying asset.\<close>

definition world_native :: world where
  "world_native = world0\<lparr>token := (\<lambda>oft. Some AddressZero)\<rparr>"

text \<open>The same world with a vault whose \<^verbatim>\<open>previewDeposit\<close> reverts.\<close>

definition world_noPreview :: world where
  "world_noPreview = world0\<lparr>previewDeposit := (\<lambda>vault x. None)\<rparr>"

text \<open>
  What the scripts build from \<open>config0\<close> and \<open>config11\<close> in these worlds: the
  instruction nested by scripts 7 and 8 (on the hub) and by script 11 (towards Katana), the
  routes around them, and the single hop of script 5.
\<close>

definition exampleHop2 :: "nat \<Rightarrow> int \<Rightarrow> SendParam" where
  "exampleHop2 dst expected =
    \<lparr>dstEid = dst, to = replicate 31 0 @ [11], amountLD = expected,
     minAmountLD = expected * 9950 div 10000, extraOptions = [0, 3], composeMsg = [],
     oftCmd = []\<rparr>"

definition exampleRoute :: "nat \<Rightarrow> int \<Rightarrow> int \<Rightarrow> route" where
  "exampleRoute dst expected v =
    \<lparr>hop1 = \<lparr>dstEid = 40231, to = replicate 31 0 @ [10], amountLD = 1000000,
             minAmountLD = 995000, extraOptions = [0, 3],
             composeMsg = compose_bytes (exampleHop2 dst expected) v, oftCmd = []\<rparr>,
     hop2 = exampleHop2 dst expected,
     composeValue = v,
     inputAmount = 1000000\<rparr>"

definition exampleRoute11 :: route where
  "exampleRoute11 =
    \<lparr>hop1 = \<lparr>dstEid = 30101, to = replicate 31 0 @ [42], amountLD = 200000,
             minAmountLD = 199000, extraOptions = [0, 3],
             composeMsg = compose_bytes (exampleHop2 30375 400000) 1200, oftCmd = []\<rparr>,
     hop2 = exampleHop2 30375 400000,
     composeValue = 1200,
     inputAmount = 200000\<rparr>"

definition exampleDirectHop :: SendParam where
  "exampleDirectHop =
    \<lparr>dstEid = 40232, to = replicate 31 0 @ [11], amountLD = 1000000, minAmountLD = 995000,
     extraOptions = [0, 3], composeMsg = [], oftCmd = []\<rparr>"

section \<open>Auxiliary lemmas\<close>

subsection \<open>Exceptions\<close>

lemma bindE_Inr_iff [simp]: "bindE m f = Inr y \<longleftrightarrow> (\<exists>x. m = Inr x \<and> f x = Inr y)"
  by (cases m) (auto simp: bindE_def)

lemma orThrow_Inr_iff [simp]: "orThrow c x = Inr v \<longleftrightarrow> x = Some v"
  by (cases x) (auto simp: orThrow_def)

lemma orThrow_Inl_iff [simp]: "orThrow c x = Inl e \<longleftrightarrow> x = None \<and> e = Thrown c"
  by (cases x) (auto simp: orThrow_def)

lemma bindE_Inl_iff: "bindE m f = Inl e \<longleftrightarrow> m = Inl e \<or> (\<exists>x. m = Inr x \<and> f x = Inl e)"
  by (cases m) (auto simp: bindE_def)

subsection \<open>Truncated division\<close>

lemma bn_div_nonneg: "0 \<le> a \<Longrightarrow> 0 < b \<Longrightarrow> bn_div a b = a div b"
  by (simp add: bn_div_def sgn_if)

lemma bn_div_floor:
  "0 \<le> a \<Longrightarrow> 0 < b \<Longrightarrow> bn_div a b = \<lfloor>real_of_int a / real_of_int b\<rfloor>"
  by (simp add: bn_div_nonneg floor_divide_of_int_eq)

subsection \<open>The codec round trip\<close>

lemma length_be_bytes [simp]: "length (be_bytes k n) = k"
  by (induction k arbitrary: n) auto

lemma be_val_snoc: "be_val (bs @ [b]) = be_val bs * 256 + unat b"
  by (simp add: be_val_def)

lemma be_val_be_bytes: "be_val (be_bytes k n) = n mod 256 ^ k"
proof (induction k arbitrary: n)
  case 0
  then show ?case by (simp add: be_val_def)
next
  case (Suc k)
  have "be_val (be_bytes (Suc k) n) = (n div 256) mod 256 ^ k * 256 + n mod 256"
    by (simp add: be_val_snoc Suc unat_of_nat)
  also have "\<dots> = n mod 256 ^ Suc k"
    by (simp add: mod_mult2_eq)
  finally show ?case .
qed

lemma word_at_append:
  "n < 2 ^ 256 \<Longrightarrow> word_at (pre @ be_bytes 32 n @ post) (length pre) = Some n"
  by (simp add: word_at_def be_val_be_bytes)

lemma uint_coder_SomeD:
  "uint_coder bits v = Some w \<Longrightarrow> 0 \<le> v \<and> v < 2 ^ bits \<and> w = be_bytes 32 (nat v)"
  by (auto simp: uint_coder_def split: if_splits)

lemma bytes_coder_SomeD:
  "bytes_coder b = Some t \<Longrightarrow>
     length b < 2 ^ 256 \<and> t = be_bytes 32 (length b) @ b @ replicate (padding (length b)) 0"
  by (auto simp: bytes_coder_def uint_coder_def split: if_splits option.splits)

lemma bytes_at_append:
  "length b < 2 ^ 256 \<Longrightarrow>
   bytes_at (pre @ be_bytes 32 (length b) @ b @ replicate k 0 @ post) (length pre) = Some b"
  by (simp add: bytes_at_def word_at_def be_val_be_bytes)

lemma decode_encode_SendParam:
  assumes enc: "encode_SendParam p = Some t"
  shows "decode_SendParam (t @ rest) = Some p"
proof -
  from enc obtain w0 w1 w2 w3 t4 t5 t6 o4 o5 o6 where
    c0: "uint_coder 32 (int (dstEid p)) = Some w0" and
    c1: "bytes32_coder (to p) = Some w1" and
    c2: "uint_coder 256 (amountLD p) = Some w2" and
    c3: "uint_coder 256 (minAmountLD p) = Some w3" and
    c4: "bytes_coder (extraOptions p) = Some t4" and
    c5: "bytes_coder (composeMsg p) = Some t5" and
    c6: "bytes_coder (oftCmd p) = Some t6" and
    d4: "uint_coder 256 224 = Some o4" and
    d5: "uint_coder 256 (224 + int (length t4)) = Some o5" and
    d6: "uint_coder 256 (224 + int (length t4) + int (length t5)) = Some o6" and
    t: "t = w0 @ w1 @ w2 @ w3 @ o4 @ o5 @ o6 @ t4 @ t5 @ t6"
    by (auto simp: encode_SendParam_def split: option.splits)
  define n5 where "n5 = 224 + length t4"
  define n6 where "n6 = 224 + length t4 + length t5"
  have e: "dstEid p < 2 ^ 32" and w0: "w0 = be_bytes 32 (dstEid p)"
    using uint_coder_SomeD [OF c0] by auto
  have w1: "w1 = to p" and l1: "length (to p) = 32"
    using c1 by (auto simp: bytes32_coder_def split: if_splits)
  have a: "0 \<le> amountLD p" "nat (amountLD p) < 2 ^ 256"
    and w2: "w2 = be_bytes 32 (nat (amountLD p))"
    using uint_coder_SomeD [OF c2] by auto
  have m: "0 \<le> minAmountLD p" "nat (minAmountLD p) < 2 ^ 256"
    and w3: "w3 = be_bytes 32 (nat (minAmountLD p))"
    using uint_coder_SomeD [OF c3] by auto
  have o4: "o4 = be_bytes 32 224"
    using uint_coder_SomeD [OF d4] by simp
  have o5: "o5 = be_bytes 32 n5" and b5: "n5 < 2 ^ 256"
    using uint_coder_SomeD [OF d5] by (auto simp: n5_def nat_add_distrib)
  have o6: "o6 = be_bytes 32 n6" and b6: "n6 < 2 ^ 256"
    using uint_coder_SomeD [OF d6] by (auto simp: n6_def nat_add_distrib)
  note x4 = bytes_coder_SomeD [OF c4] and x5 = bytes_coder_SomeD [OF c5]
    and x6 = bytes_coder_SomeD [OF c6]
  let ?bs = "t @ rest"
  have len: "length w0 = 32" "length w1 = 32" "length w2 = 32" "length w3 = 32"
    "length o4 = 32" "length o5 = 32" "length o6 = 32"
    by (simp_all add: w0 w1 l1 w2 w3 o4 o5 o6)
  have r0: "word_at ?bs 0 = Some (dstEid p)"
    using word_at_append [of "dstEid p" "[]" "w1 @ w2 @ w3 @ o4 @ o5 @ o6 @ t4 @ t5 @ t6 @ rest"] e
    by (simp add: t w0)
  have r2: "word_at ?bs 64 = Some (nat (amountLD p))"
    using word_at_append [of "nat (amountLD p)" "w0 @ w1"
        "w3 @ o4 @ o5 @ o6 @ t4 @ t5 @ t6 @ rest"] a len
    by (simp add: t w2)
  have r3: "word_at ?bs 96 = Some (nat (minAmountLD p))"
    using word_at_append [of "nat (minAmountLD p)" "w0 @ w1 @ w2"
        "o4 @ o5 @ o6 @ t4 @ t5 @ t6 @ rest"] m len
    by (simp add: t w3)
  have r4: "word_at ?bs 128 = Some 224"
    using word_at_append [of 224 "w0 @ w1 @ w2 @ w3" "o5 @ o6 @ t4 @ t5 @ t6 @ rest"] len
    by (simp add: t o4)
  have r5: "word_at ?bs 160 = Some n5"
    using word_at_append [of n5 "w0 @ w1 @ w2 @ w3 @ o4" "o6 @ t4 @ t5 @ t6 @ rest"] len b5
    by (simp add: t o5)
  have r6: "word_at ?bs 192 = Some n6"
    using word_at_append [of n6 "w0 @ w1 @ w2 @ w3 @ o4 @ o5" "t4 @ t5 @ t6 @ rest"] len b6
    by (simp add: t o6)
  have s4: "bytes_at ?bs 224 = Some (extraOptions p)"
    using bytes_at_append [of "extraOptions p" "w0 @ w1 @ w2 @ w3 @ o4 @ o5 @ o6"
        "padding (length (extraOptions p))" "t5 @ t6 @ rest"] len x4
    by (simp add: t)
  have s5: "bytes_at ?bs n5 = Some (composeMsg p)"
    using bytes_at_append [of "composeMsg p" "w0 @ w1 @ w2 @ w3 @ o4 @ o5 @ o6 @ t4"
        "padding (length (composeMsg p))" "t6 @ rest"] len x5
    by (simp add: t n5_def)
  have s6: "bytes_at ?bs n6 = Some (oftCmd p)"
    using bytes_at_append [of "oftCmd p" "w0 @ w1 @ w2 @ w3 @ o4 @ o5 @ o6 @ t4 @ t5"
        "padding (length (oftCmd p))" "rest"] len x6
    by (simp add: t n6_def add.assoc)
  have to: "take 32 (drop 32 ?bs) = to p"
    using len l1 by (simp add: t w1)
  show ?thesis
    unfolding decode_SendParam_def r0 r2 r3 r4 r5 r6 to
    using e a m by (simp add: s4 s5 s6)
qed

lemma decode_encode_compose:
  assumes "encode_compose p v = Some bs"
  shows "decode_compose bs = Some (p, v)"
proof -
  from assms obtain t w where
    t: "encode_SendParam p = Some t" and w: "uint_coder 256 v = Some w" and
    bs: "bs = be_bytes 32 64 @ w @ t"
    by (auto simp: encode_compose_def split: option.splits)
  have v: "0 \<le> v" "nat v < 2 ^ 256" and w': "w = be_bytes 32 (nat v)"
    using uint_coder_SomeD [OF w] by auto
  have h0: "word_at bs 0 = Some 64"
    using word_at_append [of 64 "[]" "w @ t"] by (simp add: bs)
  have h1: "word_at bs 32 = Some (nat v)"
    using word_at_append [of "nat v" "be_bytes 32 64" "t"] v by (simp add: bs w')
  have d: "drop 64 bs = t"
    by (simp add: bs w')
  have "decode_SendParam (drop 64 bs) = Some p"
    using decode_encode_SendParam [OF t, of "[]"] by (simp add: d)
  then show ?thesis
    unfolding decode_compose_def by (simp add: h0 h1 v)
qed

lemma encode_compose_nonempty: "encode_compose p v = Some bs \<Longrightarrow> bs \<noteq> []"
proof -
  assume "encode_compose p v = Some bs"
  then obtain w t where "bs = be_bytes 32 64 @ w @ t"
    by (auto simp: encode_compose_def split: option.splits)
  then have "32 \<le> length bs" by simp
  then show ?thesis by auto
qed

lemma encode_compose_encodable:
  assumes "encodable p v"
  shows "encode_compose p v = Some (compose_bytes p v)"
proof -
  have "\<exists>bs. encode_compose p v = Some bs"
    using assms
    by (simp add: encodable_def encode_compose_def encode_SendParam_def uint_coder_def
        bytes_coder_def bytes32_coder_def)
  then show ?thesis by (auto simp: compose_bytes_def)
qed

lemma decode_compose_bytes:
  "encodable p v \<Longrightarrow> decode_compose (compose_bytes p v) = Some (p, v)"
  by (rule decode_encode_compose) (rule encode_compose_encodable)

subsection \<open>Evaluating the decimal parser and the double arithmetic\<close>

lemmas parse_defs = parseFixed_def isDigit_def digitValue_def decimalValue_def Let_def

lemmas double_defs = double_def ilog2_def bitlen.simps roundHalfEven_def Let_def

lemmas print_defs =
  numberToString_def dexp_def declen.simps shortest.simps candidate_def same_def
  decimalDigits.simps scaled_def below_def nearest_def

lemmas slippage_defs =
  doubleSlippage_def slippageOf_def multiply_def oneMinus_def decimalLiteral_def

lemma parseFixed_examples:
  "parseFixed ''0.03'' 6 = Some 30000"
  "parseFixed ''0.03'' 18 = Some 30000000000000000"
  "parseFixed ''0.029849999999999998'' 6 = None"
  "parseFixed ''0.029849999999999998'' 18 = Some 29849999999999998"
  "parseFixed ''0.02985'' 6 = Some 29850"
  "parseFixed ''1.0'' 6 = Some 1000000"
  "parseFixed ''0.995'' 6 = Some 995000"
  "parseFixed ''0.2'' 6 = Some 200000"
  "parseFixed ''0.9'' 6 = Some 900000"
  by (simp_all add: parse_defs)

lemma doubleSlippage_003: "doubleSlippage ''0.03'' = Some ''0.029849999999999998''"
  by (simp add: slippage_defs parse_defs print_defs double_defs)

lemma doubleSlippage_1: "doubleSlippage ''1.0'' = Some ''0.995''"
  by (simp add: slippage_defs parse_defs print_defs double_defs)

subsection \<open>Unfolding a run on a concrete world\<close>

lemmas run_defs =
  main11_def plan11_def main1_def plan1_def main7_def plan7_def main8_def plan8_def main5_def
  sendParam5_def approveQuoteSend_def quoteAndSend_def sendAndWait_def txValue_def
  checkAndApprove11_def handleApproval_def aborted_def quoteSecondHop_def minAmountOut_def
  firstHopMinAmount_def calculateMinAmount_def bn_div_def toNumber_def orThrow_def bindE_def
  orElse_def AddressZero_def MaxUint256_def Let_def encodable_def padding_def nested_def
  tupleFits_def encode_compose_encodable decode_compose_bytes parseFixed_examples
  doubleSlippage_1

subsection \<open>Transactions of a run\<close>

lemma sends_append [simp]: "sends (xs @ ys) = sends xs @ sends ys"
  by (induction xs rule: sends.induct) auto

lemma approvals_append [simp]: "approvals (xs @ ys) = approvals xs @ approvals ys"
  by (induction xs rule: approvals.induct) auto

lemma plan11_route:
  assumes "plan11 w c = Inr r"
  shows "\<exists>shares fee.
    tx_privateKey c \<noteq> ''YOUR_PRIVATE_KEY_HERE'' \<and>
    parseUnits w (tx_usdcAmount c) 6 = Some (inputAmount r) \<and>
    previewDeposit w (ethereum_vault c) (inputAmount r) = Some shares \<and>
    addressToBytes32 w (tx_recipientAddress c) = Some (to (hop2 r)) \<and>
    dstEid (hop2 r) = katana_eid c \<and>
    amountLD (hop2 r) = shares \<and>
    minAmountLD (hop2 r) = calculateMinAmount shares (tx_slippageBps c) \<and>
    extraOptions (hop2 r) = addExecutorLzReceiveOption w 100000 0 \<and>
    composeMsg (hop2 r) = [] \<and> oftCmd (hop2 r) = [] \<and>
    quoteSend w (ethereum_shareOFT c) (Array (hop2 r)) = Some fee \<and>
    composeValue r = bn_div (nativeFee fee * 120) 100 \<and>
    encode_compose (hop2 r) (composeValue r) = Some (composeMsg (hop1 r)) \<and>
    addExecutorComposeOption w 0 (tx_composeGas c) (composeValue r) = Some (extraOptions (hop1 r)) \<and>
    addressToBytes32 w (ethereum_composer c) = Some (to (hop1 r)) \<and>
    dstEid (hop1 r) = ethereum_eid c \<and>
    amountLD (hop1 r) = inputAmount r \<and>
    minAmountLD (hop1 r) = calculateMinAmount (inputAmount r) (tx_slippageBps c) \<and>
    oftCmd (hop1 r) = []"
  using assms
  by (auto simp: plan11_def Let_def toNumber_def split: if_splits)

lemma sendAndWait_failure:
  "failure (sendAndWait w oft x fee v txs a) = None \<longleftrightarrow> send w oft x fee (wallet w) v = Some True"
  by (auto simp: sendAndWait_def aborted_def split: option.splits)

lemma sendAndWait_submitted:
  "submitted (sendAndWait w oft x fee v txs a) =
    (case send w oft x fee (wallet w) v of None \<Rightarrow> txs
     | Some b \<Rightarrow> txs @ [SendTx oft (tupleOf x) fee (wallet w) v])"
  by (auto simp: sendAndWait_def aborted_def split: option.splits)

lemma checkAndApprove11_sends:
  "checkAndApprove11 w c u a = (e, txs, a') \<Longrightarrow> sends txs = []"
  by (auto simp: checkAndApprove11_def split: if_splits option.splits)

lemma main11_success:
  assumes "failure (main11 w c a) = None"
  shows "\<exists>r q. plan11 w c = Inr r
     \<and> quoteSend w (base_stargatePoolUSDC c) (Array (hop1 r)) = Some q \<and>
     sends (submitted (main11 w c a)) =
       [SendTx (base_stargatePoolUSDC c) (hop1 r) \<lparr>nativeFee = nativeFee q, lzTokenFee = 0\<rparr>
          (wallet w) (nativeFee q)]"
  using assms
  by (auto simp: main11_def aborted_def sendAndWait_failure sendAndWait_submitted
      dest: checkAndApprove11_sends split: sum.splits option.splits prod.splits)


lemma quoteSecondHop_default:
  "lzComposeValue c = None \<Longrightarrow> d \<noteq> h \<Longrightarrow> quoteSend w (hub_shareOFT c) (Object p) = None \<Longrightarrow>
   quoteSecondHop w c p d h = 25000000000000000"
  by (simp add: quoteSecondHop_def)

lemma plan1_route:
  assumes "plan1 w c = Inr r"
  shows "\<exists>src hub dst assetAddress assetDecimals shareDecimals.
    privateKey c \<noteq> ''YOUR_PRIVATE_KEY_HERE'' \<and>
    recipientAddress c \<noteq> ''0xYourRecipientAddressHere'' \<and>
    hub_composer c \<noteq> ''0xYourOVaultComposerAddress'' \<and>
    srcChain c \<noteq> hubChain c \<and>
    chains c (srcChain c) = Some src \<and> chains c (hubChain c) = Some hub \<and>
    chains c (dstChain c) = Some dst \<and>
    asset w (hub_vault c) = Some assetAddress \<and>
    decimals w assetAddress = Some assetDecimals \<and>
    decimals w (hub_vault c) = Some shareDecimals \<and>
    parseUnits w (amount c) assetDecimals = Some (inputAmount r) \<and>
    amountLD (hop2 r) =
      (case previewDeposit w (hub_vault c) (inputAmount r) of
         Some previewedShares \<Rightarrow> previewedShares | None \<Rightarrow> inputAmount r) \<and>
    minAmountOut w c (amountLD (hop2 r)) shareDecimals = Inr (minAmountLD (hop2 r)) \<and>
    addressToBytes32 w (recipientAddress c) = Some (to (hop2 r)) \<and>
    dstEid (hop2 r) = eid dst \<and>
    extraOptions (hop2 r) = addExecutorLzReceiveOption w 100000 0 \<and>
    composeMsg (hop2 r) = [] \<and> oftCmd (hop2 r) = [] \<and>
    composeValue r = quoteSecondHop w c (hop2 r) (eid dst) (eid hub) \<and>
    encode_compose (hop2 r) (composeValue r) = Some (composeMsg (hop1 r)) \<and>
    addExecutorLzComposeOption w 0 (lzComposeGas c) (composeValue r) = Some (extraOptions (hop1 r)) \<and>
    firstHopMinAmount w c assetDecimals = Inr (minAmountLD (hop1 r)) \<and>
    addressToBytes32 w (hub_composer c) = Some (to (hop1 r)) \<and>
    dstEid (hop1 r) = eid hub \<and>
    amountLD (hop1 r) = inputAmount r \<and>
    oftCmd (hop1 r) = []"
  using assms
  by (auto simp: plan1_def Let_def split: if_splits option.splits)

lemma handleApproval_sends: "handleApproval w oft t u a = (txs, a') \<Longrightarrow> sends txs = []"
  by (auto simp: handleApproval_def split: if_splits option.splits)

lemma quoteAndSend_failure:
  "failure (quoteAndSend w oft x n u txs a) = None \<longleftrightarrow>
    (\<exists>q. quoteSend w oft x = Some q \<and> send w oft x q (wallet w) (txValue n q u) = Some True)"
  by (auto simp: quoteAndSend_def aborted_def sendAndWait_failure split: option.splits)

lemma quoteAndSend_submitted:
  "submitted (quoteAndSend w oft x n u txs a) =
    (case quoteSend w oft x of None \<Rightarrow> txs
     | Some q \<Rightarrow>
        (case send w oft x q (wallet w) (txValue n q u) of None \<Rightarrow> txs
         | Some b \<Rightarrow> txs @ [SendTx oft (tupleOf x) q (wallet w) (txValue n q u)]))"
  by (auto simp: quoteAndSend_def aborted_def sendAndWait_submitted split: option.splits)

lemma approveQuoteSend_success:
  assumes "failure (approveQuoteSend w oft passed r a) = None"
  shows "\<exists>t q. token w oft = Some t \<and> quoteSend w oft (passed (hop1 r)) = Some q \<and>
     sends (submitted (approveQuoteSend w oft passed r a)) =
       [SendTx oft (tupleOf (passed (hop1 r))) q (wallet w)
          (txValue (t = AddressZero) q (inputAmount r))]"
  using assms
  by (auto simp: approveQuoteSend_def aborted_def quoteAndSend_failure quoteAndSend_submitted
      dest: handleApproval_sends split: option.splits prod.splits)

lemma approveQuoteSend_sends:
  assumes "SendTx oft' p fee refund v \<in> set (submitted (approveQuoteSend w oft passed r a))"
  shows "\<exists>t. token w oft = Some t \<and> oft' = oft \<and> p = tupleOf (passed (hop1 r))
     \<and> quoteSend w oft (passed (hop1 r)) = Some fee \<and>
     refund = wallet w \<and> v = txValue (t = AddressZero) fee (inputAmount r)"
  using assms
  by (auto simp: approveQuoteSend_def aborted_def quoteAndSend_submitted handleApproval_def
      split: option.splits prod.splits if_splits)

lemma nested_hop1:
  "encode_compose h v = Some (composeMsg p) \<Longrightarrow> nested p = Some (h, v)"
  by (simp add: nested_def decode_encode_compose)

subsection \<open>Slippage outside the range of basis points\<close>

lemma plan11_config_error:
  "plan11 w c = Inl PleaseSetConfig \<longleftrightarrow> tx_privateKey c = ''YOUR_PRIVATE_KEY_HERE''"
  by (auto simp: plan11_def Let_def bindE_Inl_iff)

lemma calculateMinAmount_negative_bps:
  assumes "0 \<le> e" "b < 0"
  shows "e \<le> calculateMinAmount e b"
proof -
  have le: "e * 10000 \<le> e * (10000 - b)"
    using assms by (intro mult_left_mono) auto
  then have "0 \<le> e * (10000 - b)" using assms by simp
  then have "calculateMinAmount e b = e * (10000 - b) div 10000"
    by (simp add: calculateMinAmount_def bn_div_nonneg)
  moreover have "e * 10000 div 10000 \<le> e * (10000 - b) div 10000"
    using le by (rule zdiv_mono1) simp
  ultimately show ?thesis by simp
qed

lemma calculateMinAmount_excess_bps:
  assumes "0 \<le> e" "10000 < b"
  shows "calculateMinAmount e b \<le> 0"
proof -
  have "e * (10000 - b) \<le> 0"
    using assms by (simp add: mult_nonneg_nonpos)
  then show ?thesis
    by (simp add: calculateMinAmount_def bn_div_def sgn_if pos_imp_zdiv_nonneg_iff)
qed

lemma encode_SendParam_negative_minimum:
  "minAmountLD p < 0 \<Longrightarrow> encode_SendParam p = None"
  by (simp add: encode_SendParam_def uint_coder_def split: option.splits)

lemma encode_compose_negative_minimum:
  "minAmountLD p < 0 \<Longrightarrow> encode_compose p v = None"
  by (simp add: encode_compose_def encode_SendParam_negative_minimum)

subsection \<open>Routes, runs and the example worlds\<close>

lemma compose_bytes_nonempty: "encodable p v \<Longrightarrow> compose_bytes p v \<noteq> []"
  using encode_compose_encodable [of p v] encode_compose_nonempty [of p v "compose_bytes p v"]
  by simp

lemmas example_defs = world0_def config0_def config11_def exampleHop2_def exampleRoute_def

lemma main1_sends:
  assumes "SendTx oft p fee refund v \<in> set (submitted (main1 w c a))"
  shows "\<exists>r t. plan1 w c = Inr r \<and> token w (source_assetOFT c) = Some t \<and>
     oft = source_assetOFT c \<and> p = hop1 r \<and> quoteSend w oft (Object p) = Some fee \<and>
     refund = wallet w \<and> v = txValue (t = AddressZero) fee (inputAmount r)"
proof (cases "plan1 w c")
  case (Inl e)
  with assms show ?thesis by (simp add: main1_def aborted_def)
next
  case (Inr r)
  with assms have "SendTx oft p fee refund v
      \<in> set (submitted (approveQuoteSend w (source_assetOFT c) Object r a))"
    by (simp add: main1_def)
  from approveQuoteSend_sends [OF this] Inr show ?thesis by auto
qed

lemma plan7_route:
  assumes "plan7 w c = Inr r"
  shows "\<exists>src hub assetAddress assetDecimals shareDecimals.
    chains c (srcChain c) = Some src \<and> chains c (hubChain c) = Some hub \<and>
    asset w (hub_vault c) = Some assetAddress \<and>
    decimals w assetAddress = Some assetDecimals \<and>
    decimals w (hub_vault c) = Some shareDecimals \<and>
    parseUnits w (amount c) assetDecimals = Some (inputAmount r) \<and>
    amountLD (hop2 r) =
      (case previewDeposit w (hub_vault c) (inputAmount r) of
         Some previewedShares \<Rightarrow> previewedShares | None \<Rightarrow> inputAmount r) \<and>
    minAmountOut w c (amountLD (hop2 r)) shareDecimals = Inr (minAmountLD (hop2 r)) \<and>
    addressToBytes32 w (recipientAddress c) = Some (to (hop2 r)) \<and>
    dstEid (hop2 r) = eid hub \<and>
    composeMsg (hop2 r) = [] \<and> oftCmd (hop2 r) = [] \<and>
    composeValue r = 0 \<and>
    encode_compose (hop2 r) 0 = Some (composeMsg (hop1 r)) \<and>
    addExecutorComposeOption w 0 (lzComposeGas c) 0 = Some (extraOptions (hop1 r)) \<and>
    firstHopMinAmount w c assetDecimals = Inr (minAmountLD (hop1 r)) \<and>
    addressToBytes32 w (hub_composer c) = Some (to (hop1 r)) \<and>
    dstEid (hop1 r) = eid hub \<and>
    amountLD (hop1 r) = inputAmount r \<and>
    oftCmd (hop1 r) = []"
  using assms
  by (auto simp: plan7_def Let_def split: if_splits option.splits)

lemma plan8_route:
  assumes "plan8 w c = Inr r"
  shows "\<exists>src hub assetAddress assetDecimals shareDecimals.
    chains c (srcChain c) = Some src \<and> chains c (hubChain c) = Some hub \<and>
    asset w (hub_vault c) = Some assetAddress \<and>
    decimals w assetAddress = Some assetDecimals \<and>
    decimals w (hub_vault c) = Some shareDecimals \<and>
    parseUnits w (amount c) shareDecimals = Some (inputAmount r) \<and>
    amountLD (hop2 r) =
      (case previewRedeem w (hub_vault c) (inputAmount r) of
         Some previewedAssets \<Rightarrow> previewedAssets | None \<Rightarrow> inputAmount r) \<and>
    minAmountOut w c (amountLD (hop2 r)) assetDecimals = Inr (minAmountLD (hop2 r)) \<and>
    addressToBytes32 w (recipientAddress c) = Some (to (hop2 r)) \<and>
    dstEid (hop2 r) = eid hub \<and>
    composeMsg (hop2 r) = [] \<and> oftCmd (hop2 r) = [] \<and>
    composeValue r = 0 \<and>
    encode_compose (hop2 r) 0 = Some (composeMsg (hop1 r)) \<and>
    addExecutorComposeOption w 0 (lzComposeGas c) 0 = Some (extraOptions (hop1 r)) \<and>
    firstHopMinAmount w c shareDecimals = Inr (minAmountLD (hop1 r)) \<and>
    addressToBytes32 w (hub_composer c) = Some (to (hop1 r)) \<and>
    dstEid (hop1 r) = eid hub \<and>
    amountLD (hop1 r) = inputAmount r \<and>
    oftCmd (hop1 r) = []"
  using assms
  by (auto simp: plan8_def Let_def split: if_splits option.splits)

lemma main7_sends:
  assumes "SendTx oft p fee refund v \<in> set (submitted (main7 w c a))"
  shows "\<exists>r t. plan7 w c = Inr r \<and> token w (source_assetOFT c) = Some t \<and>
     oft = source_assetOFT c \<and> p = hop1 r \<and> quoteSend w oft (Array p) = Some fee \<and>
     refund = wallet w \<and> v = txValue (t = AddressZero) fee (inputAmount r)"
proof (cases "plan7 w c")
  case (Inl e)
  with assms show ?thesis by (simp add: main7_def aborted_def)
next
  case (Inr r)
  with assms have "SendTx oft p fee refund v
      \<in> set (submitted (approveQuoteSend w (source_assetOFT c) Array r a))"
    by (simp add: main7_def)
  from approveQuoteSend_sends [OF this] Inr show ?thesis by auto
qed

lemma sendParam5_amount:
  "sendParam5 w c dst u d = Inr p \<Longrightarrow> amountLD p = u \<and> composeMsg p = [] \<and> oftCmd p = []
     \<and> addressToBytes32 w (recipientAddress c) = Some (to p) \<and> dstEid p = eid dst"
  by (auto simp: sendParam5_def)

lemma main5_sends:
  assumes "SendTx oft p fee refund v \<in> set (submitted (main5 w c a))"
  shows "\<exists>t d u dst. token w (hubAssetOFT c) = Some t \<and> chains c (dstChain c) = Some dst \<and>
     parseUnits w (amount c) d = Some u \<and> sendParam5 w c dst u d = Inr p \<and>
     oft = hubAssetOFT c \<and> quoteSend w oft (Array p) = Some fee \<and>
     refund = wallet w \<and> v = txValue (t = AddressZero) fee u"
  using assms
  by (auto simp: main5_def aborted_def quoteAndSend_submitted handleApproval_def
      split: option.splits prod.splits if_splits sum.splits)

lemma handleApproval_probe_throws:
  assumes "approvalRequired w oft = None \<or> (approvalRequired w oft = Some True \<and> allowanceReverts w)"
  shows "handleApproval w oft t u a = ([], a)"
  using assms by (auto simp: handleApproval_def)

lemma approveQuoteSend_probe_throws:
  assumes "token w oft = Some t"
    and "approvalRequired w oft = None \<or> (approvalRequired w oft = Some True \<and> allowanceReverts w)"
  shows "approveQuoteSend w oft passed r a =
     quoteAndSend w oft (passed (hop1 r)) (t = AddressZero) (inputAmount r) [] a"
  using assms(1) handleApproval_probe_throws [OF assms(2)]
  by (simp add: approveQuoteSend_def)

lemma quoteAndSend_completes:
  assumes "quoteSend w oft x = Some q" "send w oft x q (wallet w) (txValue n q u) = Some True"
  shows "quoteAndSend w oft x n u txs a =
     \<lparr>failure = None, submitted = txs @ [SendTx oft (tupleOf x) q (wallet w) (txValue n q u)],
      allowance = a\<rparr>"
  using assms by (simp add: quoteAndSend_def sendAndWait_def)

lemma approveQuoteSend_no_quote:
  assumes "quoteSend w oft (passed (hop1 r)) = None"
  shows "failure (approveQuoteSend w oft passed r a) \<noteq> None
     \<and> sends (submitted (approveQuoteSend w oft passed r a)) = []
     \<and> (token w oft \<noteq> None \<longrightarrow>
          failure (approveQuoteSend w oft passed r a) = Some (Thrown QuoteSend))"
  using assms
  by (auto simp: approveQuoteSend_def quoteAndSend_def aborted_def
      dest: handleApproval_sends split: option.splits prod.splits)

lemma plan1_needs_LzComposeOption:
  assumes "\<forall>i g v. addExecutorLzComposeOption w i g v = None"
  shows "\<exists>e. plan1 w c = Inl e"
proof (cases "plan1 w c")
  case (Inl e)
  then show ?thesis by blast
next
  case (Inr r)
  from plan1_route [OF this] assms show ?thesis by auto
qed

lemma checkAndApprove11_twice:
  assumes "checkAndApprove11 w c u a = (e1, txs1, a1)"
    and "checkAndApprove11 w c u a2 = (e2, txs2, a2')"
    and "a1 \<le> a2" and "\<not> allowanceReverts w"
    and "approve w (base_usdc c) (base_stargatePoolUSDC c) MaxUint256 = Some True"
    and "u \<le> MaxUint256"
  shows "length (txs1 @ txs2) = (if a < u then 1 else 0)"
  using assms by (auto simp: checkAndApprove11_def split: if_splits)

lemma handleApproval_twice:
  assumes "handleApproval w oft t u a = (txs1, a1)"
    and "handleApproval w oft t u a2 = (txs2, a2')"
    and "a1 \<le> a2" and "t \<noteq> AddressZero" and "approvalRequired w oft = Some True"
    and "\<not> allowanceReverts w" and "approve w t oft u = Some True"
  shows "length (txs1 @ txs2) = (if a < u then 1 else 0)"
  using assms by (auto simp: handleApproval_def split: if_splits)

lemma compose_route_placement:
  assumes "encode_compose (hop2 r) v = Some (composeMsg (hop1 r))"
  shows "composeMsg (hop1 r) \<noteq> [] \<and> nested (hop1 r) = Some (hop2 r, v)"
  using assms encode_compose_nonempty [OF assms] nested_hop1 [OF assms] by simp

section \<open>The route and its compose payload\<close>

text \<open>
  C1 (amended).  A run of script 11 or of script 1 that completes has submitted exactly one
  \<^verbatim>\<open>send\<close>.  Its \<^verbatim>\<open>SendParam\<close> is addressed to the hub (script 1 refuses a source that
  is the hub) and to the composer, and its compose payload decodes to a second
  \<^verbatim>\<open>SendParam\<close> whose endpoint id is the requested destination, whose amount is the
  vault's \<^verbatim>\<open>previewDeposit\<close> output itself, and whose minimum amount is that output
  reduced by the slippage: \<^verbatim>\<open>calculateMinAmount\<close> with the configured basis points in
  script 11, as for the first hop; 50 basis points in script 1 unless a minimum is configured.
  In script 1 the expected output falls back to the input amount when the preview throws.
\<close>

theorem two_hop_route:
  "(failure (main11 w c a) = None \<longrightarrow>
      (\<exists>p fee h v shares.
         sends (submitted (main11 w c a)) =
           [SendTx (base_stargatePoolUSDC c) p fee (wallet w) (nativeFee fee)]
         \<and> dstEid p = ethereum_eid c
         \<and> addressToBytes32 w (ethereum_composer c) = Some (to p)
         \<and> nested p = Some (h, v)
         \<and> dstEid h = katana_eid c
         \<and> previewDeposit w (ethereum_vault c) (amountLD p) = Some shares
         \<and> amountLD h = shares
         \<and> minAmountLD h = calculateMinAmount shares (tx_slippageBps c)
         \<and> minAmountLD p = calculateMinAmount (amountLD p) (tx_slippageBps c)
         \<and> composeMsg h = []))
   \<and> (failure (main1 w' c' a') = None \<longrightarrow>
      (\<exists>p fee val h v hub dst d.
         sends (submitted (main1 w' c' a')) = [SendTx (source_assetOFT c') p fee (wallet w') val]
         \<and> srcChain c' \<noteq> hubChain c'
         \<and> chains c' (hubChain c') = Some hub \<and> chains c' (dstChain c') = Some dst
         \<and> dstEid p = eid hub
         \<and> addressToBytes32 w' (hub_composer c') = Some (to p)
         \<and> nested p = Some (h, v)
         \<and> dstEid h = eid dst
         \<and> amountLD h =
             (case previewDeposit w' (hub_vault c') (amountLD p) of
                Some previewedShares \<Rightarrow> previewedShares | None \<Rightarrow> amountLD p)
         \<and> minAmountOut w' c' (amountLD h) d = Inr (minAmountLD h)
         \<and> (minAmount c' = None \<longrightarrow> minAmountLD h = calculateMinAmount (amountLD h) 50)
         \<and> composeMsg h = []))"
proof (intro conjI impI)
  assume "failure (main11 w c a) = None"
  from main11_success [OF this] obtain r q where
    r: "plan11 w c = Inr r" and
    q: "quoteSend w (base_stargatePoolUSDC c) (Array (hop1 r)) = Some q" and
    s: "sends (submitted (main11 w c a)) =
          [SendTx (base_stargatePoolUSDC c) (hop1 r) \<lparr>nativeFee = nativeFee q, lzTokenFee = 0\<rparr>
             (wallet w) (nativeFee q)]"
    by (elim exE conjE) (rule that)
  from plan11_route [OF r] obtain shares fee where
    f: "previewDeposit w (ethereum_vault c) (inputAmount r) = Some shares"
      "dstEid (hop2 r) = katana_eid c" "amountLD (hop2 r) = shares"
      "minAmountLD (hop2 r) = calculateMinAmount shares (tx_slippageBps c)"
      "composeMsg (hop2 r) = []"
      "encode_compose (hop2 r) (composeValue r) = Some (composeMsg (hop1 r))"
      "addressToBytes32 w (ethereum_composer c) = Some (to (hop1 r))"
      "dstEid (hop1 r) = ethereum_eid c" "amountLD (hop1 r) = inputAmount r"
      "minAmountLD (hop1 r) = calculateMinAmount (inputAmount r) (tx_slippageBps c)"
    by (elim exE conjE) (rule that)
  have n: "nested (hop1 r) = Some (hop2 r, composeValue r)"
    using f(6) by (rule nested_hop1)
  show "\<exists>p fee h v shares.
         sends (submitted (main11 w c a)) =
           [SendTx (base_stargatePoolUSDC c) p fee (wallet w) (nativeFee fee)]
         \<and> dstEid p = ethereum_eid c
         \<and> addressToBytes32 w (ethereum_composer c) = Some (to p)
         \<and> nested p = Some (h, v)
         \<and> dstEid h = katana_eid c
         \<and> previewDeposit w (ethereum_vault c) (amountLD p) = Some shares
         \<and> amountLD h = shares
         \<and> minAmountLD h = calculateMinAmount shares (tx_slippageBps c)
         \<and> minAmountLD p = calculateMinAmount (amountLD p) (tx_slippageBps c)
         \<and> composeMsg h = []"
    apply (rule exI [of _ "hop1 r"])
    apply (rule exI [of _ "\<lparr>nativeFee = nativeFee q, lzTokenFee = 0\<rparr>"])
    apply (rule exI [of _ "hop2 r"])
    apply (rule exI [of _ "composeValue r"])
    apply (rule exI [of _ shares])
    using s f n by simp
next
  assume "failure (main1 w' c' a') = None"
  then obtain r where r: "plan1 w' c' = Inr r"
    and ok: "failure (approveQuoteSend w' (source_assetOFT c') Object r a') = None"
    and m: "main1 w' c' a' = approveQuoteSend w' (source_assetOFT c') Object r a'"
    by (auto simp: main1_def aborted_def split: sum.splits)
  from approveQuoteSend_success [OF ok] obtain t q where
    t: "token w' (source_assetOFT c') = Some t" and
    q: "quoteSend w' (source_assetOFT c') (Object (hop1 r)) = Some q" and
    s0: "sends (submitted (approveQuoteSend w' (source_assetOFT c') Object r a')) =
         [SendTx (source_assetOFT c') (tupleOf (Object (hop1 r))) q (wallet w')
            (txValue (t = AddressZero) q (inputAmount r))]"
    by (elim exE conjE) (rule that)
  have s: "sends (submitted (main1 w' c' a')) =
         [SendTx (source_assetOFT c') (hop1 r) q (wallet w')
            (txValue (t = AddressZero) q (inputAmount r))]"
    using s0 m by simp
  from plan1_route [OF r] obtain hub dst shareDecimals where
    f: "srcChain c' \<noteq> hubChain c'" "chains c' (hubChain c') = Some hub"
      "chains c' (dstChain c') = Some dst"
      "amountLD (hop2 r) =
        (case previewDeposit w' (hub_vault c') (inputAmount r) of
           Some previewedShares \<Rightarrow> previewedShares | None \<Rightarrow> inputAmount r)"
      "minAmountOut w' c' (amountLD (hop2 r)) shareDecimals = Inr (minAmountLD (hop2 r))"
      "dstEid (hop2 r) = eid dst" "composeMsg (hop2 r) = []"
      "encode_compose (hop2 r) (composeValue r) = Some (composeMsg (hop1 r))"
      "addressToBytes32 w' (hub_composer c') = Some (to (hop1 r))"
      "dstEid (hop1 r) = eid hub" "amountLD (hop1 r) = inputAmount r"
    by (elim exE conjE) (rule that)
  have n: "nested (hop1 r) = Some (hop2 r, composeValue r)"
    using f(8) by (rule nested_hop1)
  show "\<exists>p fee val h v hub dst d.
         sends (submitted (main1 w' c' a')) = [SendTx (source_assetOFT c') p fee (wallet w') val]
         \<and> srcChain c' \<noteq> hubChain c'
         \<and> chains c' (hubChain c') = Some hub \<and> chains c' (dstChain c') = Some dst
         \<and> dstEid p = eid hub
         \<and> addressToBytes32 w' (hub_composer c') = Some (to p)
         \<and> nested p = Some (h, v)
         \<and> dstEid h = eid dst
         \<and> amountLD h =
             (case previewDeposit w' (hub_vault c') (amountLD p) of
                Some previewedShares \<Rightarrow> previewedShares | None \<Rightarrow> amountLD p)
         \<and> minAmountOut w' c' (amountLD h) d = Inr (minAmountLD h)
         \<and> (minAmount c' = None \<longrightarrow> minAmountLD h = calculateMinAmount (amountLD h) 50)
         \<and> composeMsg h = []"
    apply (rule exI [of _ "hop1 r"])
    apply (rule exI [of _ q])
    apply (rule exI [of _ "txValue (t = AddressZero) q (inputAmount r)"])
    apply (rule exI [of _ "hop2 r"])
    apply (rule exI [of _ "composeValue r"])
    apply (rule exI [of _ hub])
    apply (rule exI [of _ dst])
    apply (rule exI [of _ shareDecimals])
    using s f n by (auto simp: minAmountOut_def calculateMinAmount_def split: option.splits)
qed

theorem two_hop_route_witness:
  "failure (main11 world0 config11 0) = None
   \<and> length (sends (submitted (main11 world0 config11 0))) = 1
   \<and> failure (main1 world0 config0 0) = Some (Thrown ComposeOption)"
proof -
  have h11: "failure (main11 world0 config11 0) = None"
    by (simp add: run_defs world0_def config11_def)
  have h1: "failure (main1 world0 config0 0) = Some (Thrown ComposeOption)"
    by (simp add: run_defs world0_def config0_def)
  from two_hop_route [of world0 config11 0 world0 config0 0] h11 h1
  show ?thesis by auto
qed

text \<open>
  C1 (as stated, refuted).  The claim makes the second hop's \<^emph>\<open>amount\<close> the preview output
  reduced by the slippage.  With 0.2 USDC in, a preview of 400000 shares and 50 basis points,
  script 11 nests an instruction whose amount is 400000; 398000 is its minimum amount.
\<close>

theorem second_hop_amount_not_reduced:
  "nestedHops (submitted (main11 world0 config11 0)) =
     [(\<lparr>dstEid = 30375, to = replicate 31 0 @ [11], amountLD = 400000, minAmountLD = 398000,
        extraOptions = [0, 3], composeMsg = [], oftCmd = []\<rparr>, 1200)]
   \<and> previewDeposit world0 (ethereum_vault config11) 200000 = Some 400000
   \<and> calculateMinAmount 400000 (tx_slippageBps config11) = 398000
   \<and> map (amountLD \<circ> fst) (nestedHops (submitted (main11 world0 config11 0)))
       \<noteq> [calculateMinAmount 400000 (tx_slippageBps config11)]"
  by (simp add: run_defs world0_def config11_def)

text \<open>
  C5 (amended).  A \<^verbatim>\<open>SendParam\<close> carries a compose payload only when it is addressed to
  the composer on the hub.  The payload then decodes to the nested \<^verbatim>\<open>SendParam\<close> and the
  value attached for it, and the nested \<^verbatim>\<open>SendParam\<close> itself carries \<^verbatim>\<open>'0x'\<close>, as does
  the single hop of script 5, which goes to the recipient.  In scripts 7 and 8 the payload is
  present although nothing leaves the hub again: the nested instruction names the hub's own
  endpoint id and its value is 0.
\<close>

theorem compose_payload_placement:
  "(plan7 w c = Inr r \<longrightarrow>
      composeMsg (hop1 r) \<noteq> [] \<and> addressToBytes32 w (hub_composer c) = Some (to (hop1 r))
      \<and> nested (hop1 r) = Some (hop2 r, 0) \<and> composeMsg (hop2 r) = []
      \<and> (\<exists>hub. chains c (hubChain c) = Some hub \<and> dstEid (hop1 r) = eid hub
            \<and> \<not> hasDownstreamHop (eid hub) (hop1 r)))
   \<and> (plan8 w c = Inr r \<longrightarrow>
      composeMsg (hop1 r) \<noteq> [] \<and> addressToBytes32 w (hub_composer c) = Some (to (hop1 r))
      \<and> nested (hop1 r) = Some (hop2 r, 0) \<and> composeMsg (hop2 r) = []
      \<and> (\<exists>hub. chains c (hubChain c) = Some hub \<and> dstEid (hop1 r) = eid hub
            \<and> \<not> hasDownstreamHop (eid hub) (hop1 r)))
   \<and> (plan1 w c = Inr r \<longrightarrow>
      composeMsg (hop1 r) \<noteq> [] \<and> addressToBytes32 w (hub_composer c) = Some (to (hop1 r))
      \<and> nested (hop1 r) = Some (hop2 r, composeValue r) \<and> composeMsg (hop2 r) = [])
   \<and> (plan11 w c' = Inr r \<longrightarrow>
      composeMsg (hop1 r) \<noteq> [] \<and> addressToBytes32 w (ethereum_composer c') = Some (to (hop1 r))
      \<and> nested (hop1 r) = Some (hop2 r, composeValue r) \<and> composeMsg (hop2 r) = [])
   \<and> (sendParam5 w c dst u d = Inr p \<longrightarrow>
      composeMsg p = [] \<and> addressToBytes32 w (recipientAddress c) = Some (to p))"
proof -
  have 1: "plan7 w c = Inr r \<longrightarrow>
      composeMsg (hop1 r) \<noteq> [] \<and> addressToBytes32 w (hub_composer c) = Some (to (hop1 r))
      \<and> nested (hop1 r) = Some (hop2 r, 0) \<and> composeMsg (hop2 r) = []
      \<and> (\<exists>hub. chains c (hubChain c) = Some hub \<and> dstEid (hop1 r) = eid hub
            \<and> \<not> hasDownstreamHop (eid hub) (hop1 r))"
  proof
    assume "plan7 w c = Inr r"
    from plan7_route [OF this] obtain hub where
      f: "chains c (hubChain c) = Some hub" "dstEid (hop2 r) = eid hub"
        "composeMsg (hop2 r) = []"
        "encode_compose (hop2 r) 0 = Some (composeMsg (hop1 r))"
        "addressToBytes32 w (hub_composer c) = Some (to (hop1 r))"
        "dstEid (hop1 r) = eid hub"
      by (elim exE conjE) (rule that)
    note n = compose_route_placement [OF f(4)]
    from n f(2) have "\<not> hasDownstreamHop (eid hub) (hop1 r)"
      by (simp add: hasDownstreamHop_def)
    with n f show "composeMsg (hop1 r) \<noteq> []
      \<and> addressToBytes32 w (hub_composer c) = Some (to (hop1 r))
      \<and> nested (hop1 r) = Some (hop2 r, 0) \<and> composeMsg (hop2 r) = []
      \<and> (\<exists>hub. chains c (hubChain c) = Some hub \<and> dstEid (hop1 r) = eid hub
            \<and> \<not> hasDownstreamHop (eid hub) (hop1 r))"
      by simp
  qed
  have 2: "plan8 w c = Inr r \<longrightarrow>
      composeMsg (hop1 r) \<noteq> [] \<and> addressToBytes32 w (hub_composer c) = Some (to (hop1 r))
      \<and> nested (hop1 r) = Some (hop2 r, 0) \<and> composeMsg (hop2 r) = []
      \<and> (\<exists>hub. chains c (hubChain c) = Some hub \<and> dstEid (hop1 r) = eid hub
            \<and> \<not> hasDownstreamHop (eid hub) (hop1 r))"
  proof
    assume "plan8 w c = Inr r"
    from plan8_route [OF this] obtain hub where
      f: "chains c (hubChain c) = Some hub" "dstEid (hop2 r) = eid hub"
        "composeMsg (hop2 r) = []"
        "encode_compose (hop2 r) 0 = Some (composeMsg (hop1 r))"
        "addressToBytes32 w (hub_composer c) = Some (to (hop1 r))"
        "dstEid (hop1 r) = eid hub"
      by (elim exE conjE) (rule that)
    note n = compose_route_placement [OF f(4)]
    from n f(2) have "\<not> hasDownstreamHop (eid hub) (hop1 r)"
      by (simp add: hasDownstreamHop_def)
    with n f show "composeMsg (hop1 r) \<noteq> []
      \<and> addressToBytes32 w (hub_composer c) = Some (to (hop1 r))
      \<and> nested (hop1 r) = Some (hop2 r, 0) \<and> composeMsg (hop2 r) = []
      \<and> (\<exists>hub. chains c (hubChain c) = Some hub \<and> dstEid (hop1 r) = eid hub
            \<and> \<not> hasDownstreamHop (eid hub) (hop1 r))"
      by simp
  qed
  have 3: "plan1 w c = Inr r \<longrightarrow>
      composeMsg (hop1 r) \<noteq> [] \<and> addressToBytes32 w (hub_composer c) = Some (to (hop1 r))
      \<and> nested (hop1 r) = Some (hop2 r, composeValue r) \<and> composeMsg (hop2 r) = []"
  proof
    assume "plan1 w c = Inr r"
    from plan1_route [OF this] have
      f: "composeMsg (hop2 r) = []"
        "encode_compose (hop2 r) (composeValue r) = Some (composeMsg (hop1 r))"
        "addressToBytes32 w (hub_composer c) = Some (to (hop1 r))"
      by auto
    with compose_route_placement [OF f(2)]
    show "composeMsg (hop1 r) \<noteq> [] \<and> addressToBytes32 w (hub_composer c) = Some (to (hop1 r))
      \<and> nested (hop1 r) = Some (hop2 r, composeValue r) \<and> composeMsg (hop2 r) = []"
      by simp
  qed
  have 4: "plan11 w c' = Inr r \<longrightarrow>
      composeMsg (hop1 r) \<noteq> [] \<and> addressToBytes32 w (ethereum_composer c') = Some (to (hop1 r))
      \<and> nested (hop1 r) = Some (hop2 r, composeValue r) \<and> composeMsg (hop2 r) = []"
  proof
    assume "plan11 w c' = Inr r"
    from plan11_route [OF this] have
      f: "composeMsg (hop2 r) = []"
        "encode_compose (hop2 r) (composeValue r) = Some (composeMsg (hop1 r))"
        "addressToBytes32 w (ethereum_composer c') = Some (to (hop1 r))"
      by auto
    with compose_route_placement [OF f(2)]
    show "composeMsg (hop1 r) \<noteq> []
      \<and> addressToBytes32 w (ethereum_composer c') = Some (to (hop1 r))
      \<and> nested (hop1 r) = Some (hop2 r, composeValue r) \<and> composeMsg (hop2 r) = []"
      by simp
  qed
  have 5: "sendParam5 w c dst u d = Inr p \<longrightarrow>
      composeMsg p = [] \<and> addressToBytes32 w (recipientAddress c) = Some (to p)"
    using sendParam5_amount [of w c dst u d p] by simp
  show ?thesis
    by (intro conjI) (rule 1, rule 2, rule 3, rule 4, rule 5)
qed

theorem compose_payload_placement_witness:
  "plan7 world0 config0 = Inr (exampleRoute 40231 2000000 0)
   \<and> plan8 world0 config0 = Inr (exampleRoute 40231 500000 0)
   \<and> plan11 world0 config11 = Inr exampleRoute11
   \<and> sendParam5 world0 config0 \<lparr>eid = 40232, name = ''Optimism Sepolia''\<rparr> 1000000 6
       = Inr exampleDirectHop
   \<and> nested (hop1 (exampleRoute 40231 2000000 0)) = Some (hop2 (exampleRoute 40231 2000000 0), 0)
   \<and> nested (hop1 (exampleRoute 40231 500000 0)) = Some (hop2 (exampleRoute 40231 500000 0), 0)
   \<and> nested (hop1 exampleRoute11) = Some (hop2 exampleRoute11, 1200)
   \<and> composeMsg exampleDirectHop = []"
proof -
  have a: "plan7 world0 config0 = Inr (exampleRoute 40231 2000000 0)"
    "plan8 world0 config0 = Inr (exampleRoute 40231 500000 0)"
    "plan11 world0 config11 = Inr exampleRoute11"
    "sendParam5 world0 config0 \<lparr>eid = 40232, name = ''Optimism Sepolia''\<rparr> 1000000 6
       = Inr exampleDirectHop"
    by (simp_all add: run_defs example_defs exampleRoute11_def exampleDirectHop_def)
  have v: "composeValue exampleRoute11 = 1200"
    by (simp add: example_defs exampleRoute11_def exampleDirectHop_def)
  note t = compose_payload_placement [where w = world0 and c = config0 and c' = config11
      and dst = "\<lparr>eid = 40232, name = ''Optimism Sepolia''\<rparr>" and u = 1000000 and d = 6
      and p = exampleDirectHop]
  note t7 = t [where r = "exampleRoute 40231 2000000 0", THEN conjunct1, THEN mp, OF a(1)]
  note t8 = t [where r = "exampleRoute 40231 500000 0", THEN conjunct2, THEN conjunct1,
      THEN mp, OF a(2)]
  note t11 = t [where r = exampleRoute11, THEN conjunct2, THEN conjunct2, THEN conjunct2,
      THEN conjunct1, THEN mp, OF a(3)]
  note t5 = t [where r = exampleRoute11, THEN conjunct2, THEN conjunct2, THEN conjunct2,
      THEN conjunct2, THEN mp, OF a(4)]
  have n: "nested (hop1 (exampleRoute 40231 2000000 0))
       = Some (hop2 (exampleRoute 40231 2000000 0), 0)"
    "nested (hop1 (exampleRoute 40231 500000 0)) = Some (hop2 (exampleRoute 40231 500000 0), 0)"
    "nested (hop1 exampleRoute11) = Some (hop2 exampleRoute11, 1200)"
    "composeMsg exampleDirectHop = []"
    using t7 t8 t11 t5 v by simp_all
  show ?thesis
    by (intro conjI) (rule a n)+
qed

text \<open>
  C5 (as stated, refuted).  The claim allows a non-empty payload only when a downstream hop
  exists, and gives a hop with no further hop the empty payload.  Script 7 from Base Sepolia
  to the hub (endpoint 40231) sends its only hop with a non-empty payload whose nested
  instruction stays on endpoint 40231 (``No second cross-chain hop since destination is
  hub'').
\<close>

theorem compose_payload_without_downstream_hop:
  "plan7 world0 config0 = Inr (exampleRoute 40231 2000000 0)
   \<and> chains config0 (hubChain config0) = Some \<lparr>eid = 40231, name = ''Arbitrum Sepolia''\<rparr>
   \<and> composeMsg (hop1 (exampleRoute 40231 2000000 0)) \<noteq> []
   \<and> nested (hop1 (exampleRoute 40231 2000000 0)) = Some (exampleHop2 40231 2000000, 0)
   \<and> dstEid (exampleHop2 40231 2000000) = 40231
   \<and> \<not> hasDownstreamHop 40231 (hop1 (exampleRoute 40231 2000000 0))"
  by (simp add: run_defs example_defs hasDownstreamHop_def compose_bytes_nonempty)

section \<open>Quoting the hops\<close>

text \<open>
  C2.  Script 1 catches a second-hop quote that throws and sets the value for the compose
  step to 25000000000000000 wei, as the claim says and as the README promises (``Quote
  failed: script uses safe default'').  The submission does not proceed, though: two
  statements later the script calls \<^verbatim>\<open>addExecutorLzComposeOption\<close>, and when the options
  builder has no such method the run ends there, whatever the configuration and the state of
  the chains, with nothing submitted.  Script 11 quotes its second hop outside any
  \<^verbatim>\<open>try\<close>: a quote that throws ends the run.  For the first hop the code does what the
  claim says: a quote that throws ends scripts 7 and 11 with the quote's exception and without
  a \<^verbatim>\<open>send\<close>.
\<close>

theorem inner_quote_fallback_then_abort:
  "(lzComposeValue c = None \<and> d \<noteq> h \<and> quoteSend w (hub_shareOFT c) (Object p) = None \<longrightarrow>
       quoteSecondHop w c p d h = 25000000000000000)
   \<and> ((\<forall>i g v. addExecutorLzComposeOption w i g v = None) \<longrightarrow>
       (\<exists>e. plan1 w c = Inl e) \<and> failure (main1 w c a) \<noteq> None \<and> submitted (main1 w c a) = [])
   \<and> (tx_privateKey c' \<noteq> ''YOUR_PRIVATE_KEY_HERE''
        \<and> parseUnits w' (tx_usdcAmount c') 6 = Some u
        \<and> previewDeposit w' (ethereum_vault c') u = Some shares
        \<and> decimals w' (ethereum_vault c') = Some sd
        \<and> addressToBytes32 w' (tx_recipientAddress c') = Some rcp
        \<and> (\<forall>x. quoteSend w' (ethereum_shareOFT c') x = None) \<longrightarrow>
       main11 w' c' a = aborted (Thrown HubQuoteSend) [] a)
   \<and> (plan7 w c = Inr r \<and> token w (source_assetOFT c) = Some t
        \<and> quoteSend w (source_assetOFT c) (Array (hop1 r)) = None \<longrightarrow>
       failure (main7 w c a) = Some (Thrown QuoteSend) \<and> sends (submitted (main7 w c a)) = [])
   \<and> (plan11 w' c' = Inr r' \<and> quoteSend w' (base_stargatePoolUSDC c') (Array (hop1 r')) = None \<longrightarrow>
       main11 w' c' a = aborted (Thrown QuoteSend) [] a)"
proof -
  have 1: "lzComposeValue c = None \<and> d \<noteq> h \<and> quoteSend w (hub_shareOFT c) (Object p) = None \<longrightarrow>
       quoteSecondHop w c p d h = 25000000000000000"
    by (simp add: quoteSecondHop_default)
  have 2: "(\<forall>i g v. addExecutorLzComposeOption w i g v = None) \<longrightarrow>
       (\<exists>e. plan1 w c = Inl e) \<and> failure (main1 w c a) \<noteq> None \<and> submitted (main1 w c a) = []"
  proof
    assume "\<forall>i g v. addExecutorLzComposeOption w i g v = None"
    from plan1_needs_LzComposeOption [OF this] obtain e where e: "plan1 w c = Inl e" ..
    then show "(\<exists>e. plan1 w c = Inl e) \<and> failure (main1 w c a) \<noteq> None
        \<and> submitted (main1 w c a) = []"
      by (simp add: main1_def aborted_def)
  qed
  have 3: "tx_privateKey c' \<noteq> ''YOUR_PRIVATE_KEY_HERE''
        \<and> parseUnits w' (tx_usdcAmount c') 6 = Some u
        \<and> previewDeposit w' (ethereum_vault c') u = Some shares
        \<and> decimals w' (ethereum_vault c') = Some sd
        \<and> addressToBytes32 w' (tx_recipientAddress c') = Some rcp
        \<and> (\<forall>x. quoteSend w' (ethereum_shareOFT c') x = None) \<longrightarrow>
       main11 w' c' a = aborted (Thrown HubQuoteSend) [] a"
    by (simp add: main11_def plan11_def bindE_def orThrow_def Let_def)
  have 4: "plan7 w c = Inr r \<and> token w (source_assetOFT c) = Some t
        \<and> quoteSend w (source_assetOFT c) (Array (hop1 r)) = None \<longrightarrow>
       failure (main7 w c a) = Some (Thrown QuoteSend) \<and> sends (submitted (main7 w c a)) = []"
    using approveQuoteSend_no_quote [of w "source_assetOFT c" Array r a]
    by (simp add: main7_def)
  have 5: "plan11 w' c' = Inr r' \<and> quoteSend w' (base_stargatePoolUSDC c') (Array (hop1 r')) = None \<longrightarrow>
       main11 w' c' a = aborted (Thrown QuoteSend) [] a"
    by (simp add: main11_def)
  show ?thesis
    by (intro conjI) (rule 1, rule 2, rule 3, rule 4, rule 5)
qed

theorem inner_quote_fallback_then_abort_witness:
  "lzComposeValue config0 = None \<and> (40232::nat) \<noteq> 40231
   \<and> quoteSend world0 (hub_shareOFT config0) (Object (exampleHop2 40232 2000000)) = None
   \<and> quoteSecondHop world0 config0 (exampleHop2 40232 2000000) 40232 40231
       = 25000000000000000
   \<and> (\<forall>i g v. addExecutorLzComposeOption world0 i g v = None)
   \<and> plan1 world0 config0 = Inl (Thrown ComposeOption)
   \<and> main1 world0 config0 0
       = \<lparr>failure = Some (Thrown ComposeOption), submitted = [], allowance = 0\<rparr>
   \<and> (\<forall>x. quoteSend world_noInnerQuote (ethereum_shareOFT config11) x = None)
   \<and> main11 world_noInnerQuote config11 0
       = \<lparr>failure = Some (Thrown HubQuoteSend), submitted = [], allowance = 0\<rparr>
   \<and> plan7 world_noOuterQuote config0 = Inr (exampleRoute 40231 2000000 0)
   \<and> quoteSend world_noOuterQuote (source_assetOFT config0)
        (Array (hop1 (exampleRoute 40231 2000000 0))) = None
   \<and> failure (main7 world_noOuterQuote config0 0) = Some (Thrown QuoteSend)
   \<and> sends (submitted (main7 world_noOuterQuote config0 0)) = []
   \<and> plan11 world_noOuterQuote config11 = Inr exampleRoute11
   \<and> main11 world_noOuterQuote config11 0
       = \<lparr>failure = Some (Thrown QuoteSend), submitted = [], allowance = 0\<rparr>"
proof -
  have a: "lzComposeValue config0 = None" "(40232::nat) \<noteq> 40231"
    "quoteSend world0 (hub_shareOFT config0) (Object (exampleHop2 40232 2000000)) = None"
    "\<forall>i g v. addExecutorLzComposeOption world0 i g v = None"
    "\<forall>x. quoteSend world_noInnerQuote (ethereum_shareOFT config11) x = None"
    "token world_noOuterQuote (source_assetOFT config0) = Some ''0xToken''"
    "quoteSend world_noOuterQuote (source_assetOFT config0)
        (Array (hop1 (exampleRoute 40231 2000000 0))) = None"
    "quoteSend world_noOuterQuote (base_stargatePoolUSDC config11) (Array (hop1 exampleRoute11))
       = None"
    "tx_privateKey config11 \<noteq> ''YOUR_PRIVATE_KEY_HERE''"
    "parseUnits world_noInnerQuote (tx_usdcAmount config11) 6 = Some 200000"
    "previewDeposit world_noInnerQuote (ethereum_vault config11) 200000 = Some 400000"
    "decimals world_noInnerQuote (ethereum_vault config11) = Some 6"
    "addressToBytes32 world_noInnerQuote (tx_recipientAddress config11)
       = Some (replicate 31 0 @ [11])"
    by (simp_all add: example_defs world_noInnerQuote_def world_noOuterQuote_def tupleFits_def
        parseFixed_examples)
  have b: "plan1 world0 config0 = Inl (Thrown ComposeOption)"
    by (simp add: run_defs example_defs)
  have c: "plan7 world_noOuterQuote config0 = Inr (exampleRoute 40231 2000000 0)"
    "plan11 world_noOuterQuote config11 = Inr exampleRoute11"
    by (simp_all add: run_defs example_defs exampleRoute11_def world_noOuterQuote_def)
  note t1 = inner_quote_fallback_then_abort [where w = world0 and c = config0 and a = 0
      and p = "exampleHop2 40232 2000000" and d = 40232 and h = 40231
      and w' = world_noInnerQuote and c' = config11 and u = 200000 and shares = 400000
      and sd = 6 and rcp = "replicate 31 0 @ [11]"]
  note t2 = inner_quote_fallback_then_abort [where w = world_noOuterQuote and c = config0
      and a = 0 and r = "exampleRoute 40231 2000000 0" and t = "''0xToken''"
      and w' = world_noOuterQuote and c' = config11 and r' = exampleRoute11]
  have h3: "tx_privateKey config11 \<noteq> ''YOUR_PRIVATE_KEY_HERE''
        \<and> parseUnits world_noInnerQuote (tx_usdcAmount config11) 6 = Some 200000
        \<and> previewDeposit world_noInnerQuote (ethereum_vault config11) 200000 = Some 400000
        \<and> decimals world_noInnerQuote (ethereum_vault config11) = Some 6
        \<and> addressToBytes32 world_noInnerQuote (tx_recipientAddress config11)
             = Some (replicate 31 0 @ [11])
        \<and> (\<forall>x. quoteSend world_noInnerQuote (ethereum_shareOFT config11) x = None)"
    using a by simp
  have h4: "plan7 world_noOuterQuote config0 = Inr (exampleRoute 40231 2000000 0)
        \<and> token world_noOuterQuote (source_assetOFT config0) = Some ''0xToken''
        \<and> quoteSend world_noOuterQuote (source_assetOFT config0)
             (Array (hop1 (exampleRoute 40231 2000000 0))) = None"
    using a c by simp
  have h5: "plan11 world_noOuterQuote config11 = Inr exampleRoute11
        \<and> quoteSend world_noOuterQuote (base_stargatePoolUSDC config11)
             (Array (hop1 exampleRoute11)) = None"
    using a c by simp
  have r1: "quoteSecondHop world0 config0 (exampleHop2 40232 2000000) 40232 40231
       = 25000000000000000"
    using t1 [THEN conjunct1] a by simp
  have r2: "failure (main1 world0 config0 0) \<noteq> None \<and> submitted (main1 world0 config0 0) = []"
    using t1 [THEN conjunct2, THEN conjunct1, THEN mp, OF a(4)] by simp
  have m1: "main1 world0 config0 0
       = \<lparr>failure = Some (Thrown ComposeOption), submitted = [], allowance = 0\<rparr>"
    using b by (simp add: main1_def aborted_def)
  have r3: "main11 world_noInnerQuote config11 0
       = \<lparr>failure = Some (Thrown HubQuoteSend), submitted = [], allowance = 0\<rparr>"
    using t1 [THEN conjunct2, THEN conjunct2, THEN conjunct1, THEN mp, OF h3]
    by (simp add: aborted_def)
  have r4: "failure (main7 world_noOuterQuote config0 0) = Some (Thrown QuoteSend)
      \<and> sends (submitted (main7 world_noOuterQuote config0 0)) = []"
    using t2 [THEN conjunct2, THEN conjunct2, THEN conjunct2, THEN conjunct1, THEN mp, OF h4] .
  have r5: "main11 world_noOuterQuote config11 0
       = \<lparr>failure = Some (Thrown QuoteSend), submitted = [], allowance = 0\<rparr>"
    using t2 [THEN conjunct2, THEN conjunct2, THEN conjunct2, THEN conjunct2, THEN mp, OF h5]
    by (simp add: aborted_def)
  from a b c r1 r2 m1 r3 r4 r5 show ?thesis by simp
qed



section \<open>The slippage calculator\<close>

text \<open>
  C3.  For an expected amount \<open>e \<ge> 0\<close> and a slippage of \<open>b\<close> basis points (at most 10000),
  \<^verbatim>\<open>calculateMinAmount\<close> returns the floor of \<open>e * (10000 - b) / 10000\<close>: the exact quotient
  rounded down, never up.  Scripts 1, 7 and 8 inline the same formula with the constant 50
  when no minimum is configured; a configured minimum is parsed into units and used as it is,
  whatever the expected amount.
\<close>

theorem slippage_minimum:
  fixes e b :: int
  shows "(0 \<le> e \<and> b \<le> 10000 \<longrightarrow>
            calculateMinAmount e b = \<lfloor>real_of_int (e * (10000 - b)) / 10000\<rfloor>)
       \<and> (0 \<le> e \<and> (minAmount c = None \<or> minAmount c = Some []) \<longrightarrow>
            minAmountOut w c e d = Inr \<lfloor>real_of_int (e * (10000 - 50)) / 10000\<rfloor>)
       \<and> (minAmount c = Some s \<and> s \<noteq> [] \<longrightarrow>
            minAmountOut w c e d = orThrow ParseUnits (parseUnits w s d))"
proof (intro conjI impI)
  assume "0 \<le> e \<and> b \<le> 10000"
  then have "0 \<le> e * (10000 - b)" by simp
  then show "calculateMinAmount e b = \<lfloor>real_of_int (e * (10000 - b)) / 10000\<rfloor>"
    using bn_div_floor [of "e * (10000 - b)" 10000] by (simp add: calculateMinAmount_def)
next
  assume h: "0 \<le> e \<and> (minAmount c = None \<or> minAmount c = Some [])"
  then have "0 \<le> e * (10000 - 50)" by simp
  then have "bn_div (e * (10000 - 50)) 10000 = \<lfloor>real_of_int (e * (10000 - 50)) / 10000\<rfloor>"
    using bn_div_floor [of "e * (10000 - 50)" 10000] by simp
  with h show "minAmountOut w c e d = Inr \<lfloor>real_of_int (e * (10000 - 50)) / 10000\<rfloor>"
    by (auto simp: minAmountOut_def)
next
  assume "minAmount c = Some s \<and> s \<noteq> []"
  then show "minAmountOut w c e d = orThrow ParseUnits (parseUnits w s d)"
    by (simp add: minAmountOut_def)
qed

theorem slippage_minimum_witness:
  "(0::int) \<le> 1000000 \<and> (50::int) \<le> 10000 \<and> calculateMinAmount 1000000 50 = 995000
   \<and> minAmount config0 = None \<and> minAmountOut world0 config0 1000000 6 = Inr 995000
   \<and> minAmount (config0\<lparr>minAmount := Some ''0.9''\<rparr>) = Some ''0.9'' \<and> ''0.9'' \<noteq> []
   \<and> minAmountOut world0 (config0\<lparr>minAmount := Some ''0.9''\<rparr>) 1000000 6 = Inr 900000"
  using slippage_minimum [where e = 1000000 and b = 50 and c = config0 and w = world0 and d = 6]
    slippage_minimum [where e = 1000000 and c = "config0\<lparr>minAmount := Some ''0.9''\<rparr>"
      and w = world0 and d = 6 and s = "''0.9''"]
  by (simp add: config0_def world0_def orThrow_def parseFixed_examples)

text \<open>
  C7 (amended).  Nothing validates the slippage.  In script 11 the only configuration error
  is the placeholder private key, and the vault preview, a network call, is made whatever the
  slippage: when it fails, that failure is what ends the run.  For an amount \<open>e \<ge> 0\<close> a
  negative slippage yields a minimum of at least \<open>e\<close>, and a slippage above 10000 a minimum
  that is zero or negative; a negative minimum for the second hop ends the run after the
  preview, with the exception of a later call, not with a configuration error.  (The
  arithmetic is that of \<^verbatim>\<open>BigNumber\<close>, which takes \<^verbatim>\<open>10000 - slippageBps\<close> only when it is
  a safe integer; the statements on \<^verbatim>\<open>calculateMinAmount\<close> are for such values.)
\<close>

theorem slippage_unchecked:
  fixes e b :: int
  shows "(plan11 w c = Inl PleaseSetConfig \<longleftrightarrow> tx_privateKey c = ''YOUR_PRIVATE_KEY_HERE'')
       \<and> (tx_privateKey c \<noteq> ''YOUR_PRIVATE_KEY_HERE''
            \<and> parseUnits w (tx_usdcAmount c) 6 = Some u
            \<and> previewDeposit w (ethereum_vault c) u = None \<longrightarrow>
          plan11 w (c\<lparr>tx_slippageBps := b\<rparr>) = Inl (Thrown PreviewDeposit))
       \<and> (0 \<le> e \<and> b < 0 \<and> \<bar>10000 - b\<bar> < 2 ^ 53 - 1 \<longrightarrow> e \<le> calculateMinAmount e b)
       \<and> (0 \<le> e \<and> 10000 < b \<and> \<bar>10000 - b\<bar> < 2 ^ 53 - 1 \<longrightarrow> calculateMinAmount e b \<le> 0)
       \<and> (tx_privateKey c \<noteq> ''YOUR_PRIVATE_KEY_HERE''
            \<and> parseUnits w (tx_usdcAmount c) 6 = Some u
            \<and> previewDeposit w (ethereum_vault c) u = Some s
            \<and> calculateMinAmount s (tx_slippageBps c) < 0 \<longrightarrow>
          (\<exists>k. plan11 w c = Inl (Thrown k)))"
proof -
  have 1: "plan11 w c = Inl PleaseSetConfig \<longleftrightarrow> tx_privateKey c = ''YOUR_PRIVATE_KEY_HERE''"
    by (rule plan11_config_error)
  have 2: "tx_privateKey c \<noteq> ''YOUR_PRIVATE_KEY_HERE''
            \<and> parseUnits w (tx_usdcAmount c) 6 = Some u
            \<and> previewDeposit w (ethereum_vault c) u = None \<longrightarrow>
          plan11 w (c\<lparr>tx_slippageBps := b\<rparr>) = Inl (Thrown PreviewDeposit)"
    by (simp add: plan11_def bindE_def orThrow_def)
  have 3: "0 \<le> e \<and> b < 0 \<and> \<bar>10000 - b\<bar> < 2 ^ 53 - 1 \<longrightarrow> e \<le> calculateMinAmount e b"
    using calculateMinAmount_negative_bps [of e b] by simp
  have 4: "0 \<le> e \<and> 10000 < b \<and> \<bar>10000 - b\<bar> < 2 ^ 53 - 1 \<longrightarrow> calculateMinAmount e b \<le> 0"
    using calculateMinAmount_excess_bps [of e b] by simp
  have 5: "tx_privateKey c \<noteq> ''YOUR_PRIVATE_KEY_HERE''
            \<and> parseUnits w (tx_usdcAmount c) 6 = Some u
            \<and> previewDeposit w (ethereum_vault c) u = Some s
            \<and> calculateMinAmount s (tx_slippageBps c) < 0 \<longrightarrow>
          (\<exists>k. plan11 w c = Inl (Thrown k))"
  proof
    assume h: "tx_privateKey c \<noteq> ''YOUR_PRIVATE_KEY_HERE''
            \<and> parseUnits w (tx_usdcAmount c) 6 = Some u
            \<and> previewDeposit w (ethereum_vault c) u = Some s
            \<and> calculateMinAmount s (tx_slippageBps c) < 0"
    show "\<exists>k. plan11 w c = Inl (Thrown k)"
    proof (cases "plan11 w c")
      case (Inl x)
      with h plan11_config_error [of w c] show ?thesis
        by (auto simp: plan11_def Let_def bindE_def orThrow_def
            split: if_splits option.splits sum.splits)
    next
      case (Inr r)
      from plan11_route [OF Inr] h
      have "minAmountLD (hop2 r) < 0"
        and "encode_compose (hop2 r) (composeValue r) = Some (composeMsg (hop1 r))"
        by auto
      with encode_compose_negative_minimum [of "hop2 r" "composeValue r"]
      show ?thesis by simp
    qed
  qed
  show ?thesis
    by (intro conjI) (rule 1, rule 2, rule 3, rule 4, rule 5)
qed

theorem slippage_unchecked_witness:
  "tx_privateKey config11 \<noteq> ''YOUR_PRIVATE_KEY_HERE''
   \<and> parseUnits world_noPreview (tx_usdcAmount config11) 6 = Some 200000
   \<and> previewDeposit world_noPreview (ethereum_vault config11) 200000 = None
   \<and> plan11 world_noPreview (config11\<lparr>tx_slippageBps := 10001\<rparr>) = Inl (Thrown PreviewDeposit)
   \<and> (0::int) \<le> 200000 \<and> (- 1 :: int) < 0 \<and> 200000 \<le> calculateMinAmount 200000 (- 1)
   \<and> (10000::int) < 10001 \<and> calculateMinAmount 200000 10001 \<le> 0
   \<and> previewDeposit world0 (ethereum_vault config11) 200000 = Some 400000
   \<and> calculateMinAmount 400000 10001 < 0
   \<and> plan11 world0 (config11\<lparr>tx_slippageBps := 10001\<rparr>) = Inl (Thrown HubQuoteSend)"
proof -
  have a: "tx_privateKey config11 \<noteq> ''YOUR_PRIVATE_KEY_HERE''"
    "parseUnits world_noPreview (tx_usdcAmount config11) 6 = Some 200000"
    "previewDeposit world_noPreview (ethereum_vault config11) 200000 = None"
    "previewDeposit world0 (ethereum_vault config11) 200000 = Some 400000"
    "calculateMinAmount 400000 10001 < 0"
    by (simp_all add: example_defs world_noPreview_def calculateMinAmount_def bn_div_def
        parseFixed_examples)
  have b: "plan11 world0 (config11\<lparr>tx_slippageBps := 10001\<rparr>) = Inl (Thrown HubQuoteSend)"
    by (simp add: run_defs example_defs)
  note t1 = slippage_unchecked [where w = world_noPreview and c = config11 and u = 200000
      and b = 10001 and e = 200000]
  note t2 = slippage_unchecked [where w = world0 and c = "config11\<lparr>tx_slippageBps := 10001\<rparr>"
      and u = 200000 and s = 400000 and b = "- 1" and e = 200000]
  have h2: "tx_privateKey config11 \<noteq> ''YOUR_PRIVATE_KEY_HERE''
            \<and> parseUnits world_noPreview (tx_usdcAmount config11) 6 = Some 200000
            \<and> previewDeposit world_noPreview (ethereum_vault config11) 200000 = None"
    using a by simp
  have r2: "plan11 world_noPreview (config11\<lparr>tx_slippageBps := 10001\<rparr>)
      = Inl (Thrown PreviewDeposit)"
    using t1 [THEN conjunct2, THEN conjunct1, THEN mp, OF h2] .
  have r4: "calculateMinAmount 200000 10001 \<le> 0"
    using t1 [THEN conjunct2, THEN conjunct2, THEN conjunct2, THEN conjunct1] by simp
  have r3: "200000 \<le> calculateMinAmount 200000 (- 1)"
    using t2 [THEN conjunct2, THEN conjunct2, THEN conjunct1] by simp
  from a b r2 r3 r4 show ?thesis by simp
qed

text \<open>
  C7 (as stated, refuted).  The claim asks that a slippage below 0 or above 10000 basis points
  be rejected as a configuration error before any network call.  The code has no such check:
  with \<^verbatim>\<open>slippageBps = -1\<close> script 11 runs to a confirmed submission, and
  \<^verbatim>\<open>calculateMinAmount\<close> returns a minimum above the amount (negative slippage) or a
  negative one (slippage above 10000).
\<close>

theorem slippage_not_rejected:
  "failure (main11 world0 (config11\<lparr>tx_slippageBps := - 1\<rparr>) 0) = None
   \<and> calculateMinAmount 200000 (- 1) = 200020
   \<and> calculateMinAmount 200000 10001 = - 20"
  by (simp add: run_defs world0_def config11_def)

section \<open>Amount arithmetic\<close>

text \<open>
  C4.  The claim has every amount, the first hop's minimum included, computed on integers in
  smallest units.  Scripts 5 and 11 do so, and so does the second-hop minimum of scripts 7
  and 8; the first-hop minimum of scripts 7 and 8 (and 1) is instead a double multiplication
  on the human-readable amount, printed and parsed again with the token's decimals.  For an
  amount of \<^verbatim>\<open>'0.03'\<close> the double product prints as \<^verbatim>\<open>'0.029849999999999998'\<close>: with a
  token of six decimals \<^verbatim>\<open>parseUnits\<close> throws on its eighteen fractional digits and scripts
  7 and 8 end before anything is submitted, and with eighteen decimals the minimum is two
  units short of the integer result.  On integers the minimum of 30000 units is 29850, which
  is also what \<^verbatim>\<open>parseUnits\<close> makes of the exact product \<^verbatim>\<open>'0.02985'\<close>; for an amount of
  \<^verbatim>\<open>'1.0'\<close>, whose product prints as \<^verbatim>\<open>'0.995'\<close>, the same script completes.
\<close>

theorem first_hop_minimum_in_floating_point:
  "doubleSlippage ''0.03'' = Some ''0.029849999999999998''
   \<and> parseFixed ''0.03'' 6 = Some 30000
   \<and> parseFixed ''0.029849999999999998'' 6 = None
   \<and> parseFixed ''0.02985'' 6 = Some 29850
   \<and> calculateMinAmount 30000 50 = 29850
   \<and> main7 world0 (config0\<lparr>amount := ''0.03''\<rparr>) 0
       = \<lparr>failure = Some (Thrown ParseUnits), submitted = [], allowance = 0\<rparr>
   \<and> main8 world0 (config0\<lparr>amount := ''0.03''\<rparr>) 0
       = \<lparr>failure = Some (Thrown ParseUnits), submitted = [], allowance = 0\<rparr>
   \<and> failure (main7 world0 config0 0) = None
   \<and> firstHopMinAmount world0 (config0\<lparr>amount := ''0.03''\<rparr>) 18
       = Inr 29849999999999998
   \<and> parseFixed ''0.03'' 18 = Some 30000000000000000
   \<and> calculateMinAmount 30000000000000000 50 = 29850000000000000"
  by (simp add: run_defs example_defs doubleSlippage_003)

section \<open>The value attached to the submission\<close>

text \<open>
  C8.  Every \<^verbatim>\<open>send\<close> that scripts 1, 7 and 5 submit carries the fee quoted for that very
  \<^verbatim>\<open>SendParam\<close>, and its value is the quoted native fee when \<^verbatim>\<open>token()\<close> is not the
  zero address, and that fee plus the amount of the \<^verbatim>\<open>SendParam\<close> when it is.
\<close>

theorem attached_value:
  "(SendTx oft p fee refund val \<in> set (submitted (main1 w c a)) \<longrightarrow>
      (\<exists>t. token w (source_assetOFT c) = Some t
         \<and> quoteSend w (source_assetOFT c) (Object p) = Some fee
         \<and> val = (if t = AddressZero then nativeFee fee + amountLD p else nativeFee fee)))
   \<and> (SendTx oft p fee refund val \<in> set (submitted (main7 w c a)) \<longrightarrow>
      (\<exists>t. token w (source_assetOFT c) = Some t
         \<and> quoteSend w (source_assetOFT c) (Array p) = Some fee
         \<and> val = (if t = AddressZero then nativeFee fee + amountLD p else nativeFee fee)))
   \<and> (SendTx oft p fee refund val \<in> set (submitted (main5 w c a)) \<longrightarrow>
      (\<exists>t. token w (hubAssetOFT c) = Some t \<and> quoteSend w (hubAssetOFT c) (Array p) = Some fee
         \<and> val = (if t = AddressZero then nativeFee fee + amountLD p else nativeFee fee)))"
proof (intro conjI impI)
  assume "SendTx oft p fee refund val \<in> set (submitted (main1 w c a))"
  from main1_sends [OF this] obtain r t where
    f: "plan1 w c = Inr r" "token w (source_assetOFT c) = Some t" "oft = source_assetOFT c"
      "p = hop1 r" "quoteSend w oft (Object p) = Some fee"
      "val = txValue (t = AddressZero) fee (inputAmount r)"
    by auto
  from plan1_route [OF f(1)] have "amountLD (hop1 r) = inputAmount r" by auto
  with f show "\<exists>t. token w (source_assetOFT c) = Some t
      \<and> quoteSend w (source_assetOFT c) (Object p) = Some fee
      \<and> val = (if t = AddressZero then nativeFee fee + amountLD p else nativeFee fee)"
    by (auto simp: txValue_def)
next
  assume "SendTx oft p fee refund val \<in> set (submitted (main7 w c a))"
  from main7_sends [OF this] obtain r t where
    f: "plan7 w c = Inr r" "token w (source_assetOFT c) = Some t" "oft = source_assetOFT c"
      "p = hop1 r" "quoteSend w oft (Array p) = Some fee"
      "val = txValue (t = AddressZero) fee (inputAmount r)"
    by auto
  from plan7_route [OF f(1)] have "amountLD (hop1 r) = inputAmount r" by auto
  with f show "\<exists>t. token w (source_assetOFT c) = Some t
      \<and> quoteSend w (source_assetOFT c) (Array p) = Some fee
      \<and> val = (if t = AddressZero then nativeFee fee + amountLD p else nativeFee fee)"
    by (auto simp: txValue_def)
next
  assume "SendTx oft p fee refund val \<in> set (submitted (main5 w c a))"
  from main5_sends [OF this] obtain t d u dst where
    f: "token w (hubAssetOFT c) = Some t" "sendParam5 w c dst u d = Inr p"
      "oft = hubAssetOFT c" "quoteSend w oft (Array p) = Some fee"
      "val = txValue (t = AddressZero) fee u"
    by auto
  from sendParam5_amount [OF f(2)] have "amountLD p = u" by simp
  with f show "\<exists>t. token w (hubAssetOFT c) = Some t
      \<and> quoteSend w (hubAssetOFT c) (Array p) = Some fee
      \<and> val = (if t = AddressZero then nativeFee fee + amountLD p else nativeFee fee)"
    by (auto simp: txValue_def)
qed

theorem attached_value_witness:
  "SendTx ''0xSourceAssetOFT'' (hop1 (exampleRoute 40231 2000000 0))
       \<lparr>nativeFee = 3000, lzTokenFee = 0\<rparr> ''0xWallet'' 3000
     \<in> set (submitted (main7 world0 config0 0))
   \<and> token world0 (source_assetOFT config0) = Some ''0xToken'' \<and> ''0xToken'' \<noteq> AddressZero
   \<and> SendTx ''0xSourceAssetOFT'' (hop1 (exampleRoute 40231 2000000 0))
       \<lparr>nativeFee = 3000, lzTokenFee = 0\<rparr> ''0xWallet'' 1003000
     \<in> set (submitted (main7 world_native config0 0))
   \<and> token world_native (source_assetOFT config0) = Some AddressZero
   \<and> amountLD (hop1 (exampleRoute 40231 2000000 0)) = 1000000
   \<and> SendTx ''0xHubAssetOFT'' exampleDirectHop
       \<lparr>nativeFee = 3000, lzTokenFee = 0\<rparr> ''0xWallet'' 3000
     \<in> set (submitted (main5 world0 config0 0))
   \<and> submitted (main1 world0 config0 0) = []"
proof -
  have a: "SendTx ''0xSourceAssetOFT'' (hop1 (exampleRoute 40231 2000000 0))
       \<lparr>nativeFee = 3000, lzTokenFee = 0\<rparr> ''0xWallet'' 3000
     \<in> set (submitted (main7 world0 config0 0))"
    by (simp add: run_defs example_defs world_native_def exampleDirectHop_def)
  have b: "SendTx ''0xSourceAssetOFT'' (hop1 (exampleRoute 40231 2000000 0))
       \<lparr>nativeFee = 3000, lzTokenFee = 0\<rparr> ''0xWallet'' 1003000
     \<in> set (submitted (main7 world_native config0 0))"
    by (simp add: run_defs example_defs world_native_def exampleDirectHop_def)
  have c: "SendTx ''0xHubAssetOFT'' exampleDirectHop
       \<lparr>nativeFee = 3000, lzTokenFee = 0\<rparr> ''0xWallet'' 3000
     \<in> set (submitted (main5 world0 config0 0))"
    by (simp add: run_defs example_defs world_native_def exampleDirectHop_def)
  have d: "token world0 (source_assetOFT config0) = Some ''0xToken''"
    "''0xToken'' \<noteq> AddressZero"
    "token world_native (source_assetOFT config0) = Some AddressZero"
    "amountLD (hop1 (exampleRoute 40231 2000000 0)) = 1000000"
    by (simp_all add: example_defs world_native_def exampleDirectHop_def AddressZero_def)
  have e: "submitted (main1 world0 config0 0) = []"
    by (simp add: run_defs example_defs)
  note attached_value [where w = world0 and c = config0 and a = 0]
    attached_value [where w = world_native and c = config0 and a = 0]
  with a b c d e show ?thesis by simp
qed

section \<open>Approval\<close>

text \<open>
  C9.  The approval step of script 11 and the guarded approval block of scripts 1, 5 and 7
  submit an approval only when the allowance read is strictly less than the amount.  Run
  twice, the second time on an allowance not below the one the first run left, with calls
  that succeed, they submit one approval in all when the first allowance was too low and none
  when it sufficed.  (Script 11 approves the maximum, so the amount must be a uint256.)
\<close>

theorem approval_idempotent:
  "(checkAndApprove11 w c u a = (e, txs, b) \<longrightarrow> (txs \<noteq> [] \<longrightarrow> a < u))
   \<and> (checkAndApprove11 w c u a = (e, txs, b) \<and> checkAndApprove11 w c u a' = (e', txs', b')
        \<and> b \<le> a' \<and> \<not> allowanceReverts w
        \<and> approve w (base_usdc c) (base_stargatePoolUSDC c) MaxUint256 = Some True
        \<and> u \<le> MaxUint256 \<longrightarrow>
       length (txs @ txs') = (if a < u then 1 else 0))
   \<and> (handleApproval w oft t u a = (txs, b) \<longrightarrow> (txs \<noteq> [] \<longrightarrow> a < u))
   \<and> (handleApproval w oft t u a = (txs, b) \<and> handleApproval w oft t u a' = (txs', b')
        \<and> b \<le> a' \<and> t \<noteq> AddressZero \<and> approvalRequired w oft = Some True
        \<and> \<not> allowanceReverts w \<and> approve w t oft u = Some True \<longrightarrow>
       length (txs @ txs') = (if a < u then 1 else 0))"
proof (intro conjI impI)
  assume "checkAndApprove11 w c u a = (e, txs, b)" and "txs \<noteq> []"
  then show "a < u"
    by (auto simp: checkAndApprove11_def split: if_splits)
next
  assume "checkAndApprove11 w c u a = (e, txs, b) \<and> checkAndApprove11 w c u a' = (e', txs', b')
        \<and> b \<le> a' \<and> \<not> allowanceReverts w
        \<and> approve w (base_usdc c) (base_stargatePoolUSDC c) MaxUint256 = Some True
        \<and> u \<le> MaxUint256"
  then show "length (txs @ txs') = (if a < u then 1 else 0)"
    using checkAndApprove11_twice [of w c u a e txs b a' e' txs' b'] by blast
next
  assume "handleApproval w oft t u a = (txs, b)" and "txs \<noteq> []"
  then show "a < u"
    by (auto simp: handleApproval_def split: if_splits option.splits)
next
  assume "handleApproval w oft t u a = (txs, b) \<and> handleApproval w oft t u a' = (txs', b')
        \<and> b \<le> a' \<and> t \<noteq> AddressZero \<and> approvalRequired w oft = Some True
        \<and> \<not> allowanceReverts w \<and> approve w t oft u = Some True"
  then show "length (txs @ txs') = (if a < u then 1 else 0)"
    using handleApproval_twice [of w oft t u a txs b a' txs' b'] by blast
qed

theorem approval_idempotent_witness:
  "checkAndApprove11 world0 config11 200000 0
     = (None, [ApproveTx (base_usdc config11) (base_stargatePoolUSDC config11) MaxUint256],
        MaxUint256)
   \<and> checkAndApprove11 world0 config11 200000 MaxUint256 = (None, [], MaxUint256)
   \<and> \<not> allowanceReverts world0
   \<and> approve world0 (base_usdc config11) (base_stargatePoolUSDC config11) MaxUint256 = Some True
   \<and> (200000::int) \<le> MaxUint256 \<and> (0::int) < 200000
   \<and> handleApproval world0 ''0xSourceAssetOFT'' ''0xToken'' 1000000 0
     = ([ApproveTx ''0xToken'' ''0xSourceAssetOFT'' 1000000], 1000000)
   \<and> handleApproval world0 ''0xSourceAssetOFT'' ''0xToken'' 1000000 1000000 = ([], 1000000)
   \<and> ''0xToken'' \<noteq> AddressZero \<and> approvalRequired world0 ''0xSourceAssetOFT'' = Some True
   \<and> approve world0 ''0xToken'' ''0xSourceAssetOFT'' 1000000 = Some True
   \<and> length ([ApproveTx (base_usdc config11) (base_stargatePoolUSDC config11) MaxUint256] @ [])
       = (1::nat)
   \<and> length ([ApproveTx ''0xToken'' ''0xSourceAssetOFT'' 1000000] @ []) = (1::nat)"
  using approval_idempotent [where w = world0 and c = config11 and u = 200000 and a = 0
      and a' = MaxUint256 and b' = MaxUint256 and b = MaxUint256 and e = None and e' = None
      and txs = "[ApproveTx (base_usdc config11) (base_stargatePoolUSDC config11) MaxUint256]"
      and txs' = "[]"]
  by (simp add: checkAndApprove11_def handleApproval_def example_defs MaxUint256_def
      AddressZero_def)

text \<open>
  C10.  In scripts 1 and 5, for an underlying token that is not the zero address, an
  \<^verbatim>\<open>approvalRequired()\<close> probe that throws, or an allowance read that throws after the
  probe answered true, is swallowed: the run is the quote-and-send stage started with no
  transaction submitted, it contains no approval, and when the quote and the send succeed it
  completes with exactly that one \<^verbatim>\<open>send\<close>.
\<close>

theorem approval_probe_swallowed:
  "(plan1 w c = Inr r \<and> token w (source_assetOFT c) = Some t \<and> t \<noteq> AddressZero
      \<and> (approvalRequired w (source_assetOFT c) = None
           \<or> (approvalRequired w (source_assetOFT c) = Some True \<and> allowanceReverts w)) \<longrightarrow>
        main1 w c a
          = quoteAndSend w (source_assetOFT c) (Object (hop1 r)) False (inputAmount r) [] a
      \<and> approvals (submitted (main1 w c a)) = []
      \<and> (\<forall>q. quoteSend w (source_assetOFT c) (Object (hop1 r)) = Some q
             \<and> send w (source_assetOFT c) (Object (hop1 r)) q (wallet w) (nativeFee q)
                 = Some True \<longrightarrow>
             failure (main1 w c a) = None
           \<and> submitted (main1 w c a)
               = [SendTx (source_assetOFT c) (hop1 r) q (wallet w) (nativeFee q)]))
   \<and> (privateKey c \<noteq> ''YOUR_PRIVATE_KEY_HERE''
      \<and> recipientAddress c \<noteq> ''0xYourRecipientAddressHere''
      \<and> hubAssetOFT c \<noteq> ''0xYourAssetOFTOnHubAddress''
      \<and> chains c (srcChain c) = Some src \<and> chains c (dstChain c) = Some dst
      \<and> token w (hubAssetOFT c) = Some t \<and> t \<noteq> AddressZero
      \<and> decimals w t = Some d \<and> parseUnits w (amount c) d = Some u
      \<and> sendParam5 w c dst u d = Inr p
      \<and> (approvalRequired w (hubAssetOFT c) = None
           \<or> (approvalRequired w (hubAssetOFT c) = Some True \<and> allowanceReverts w)) \<longrightarrow>
        main5 w c a = quoteAndSend w (hubAssetOFT c) (Array p) False u [] a
      \<and> approvals (submitted (main5 w c a)) = []
      \<and> (\<forall>q. quoteSend w (hubAssetOFT c) (Array p) = Some q
             \<and> send w (hubAssetOFT c) (Array p) q (wallet w) (nativeFee q) = Some True \<longrightarrow>
             failure (main5 w c a) = None
           \<and> submitted (main5 w c a) = [SendTx (hubAssetOFT c) p q (wallet w) (nativeFee q)]))"
proof (intro conjI impI)
  assume h: "plan1 w c = Inr r \<and> token w (source_assetOFT c) = Some t \<and> t \<noteq> AddressZero
      \<and> (approvalRequired w (source_assetOFT c) = None
           \<or> (approvalRequired w (source_assetOFT c) = Some True \<and> allowanceReverts w))"
  then have m: "main1 w c a =
      quoteAndSend w (source_assetOFT c) (Object (hop1 r)) False (inputAmount r) [] a"
    using approveQuoteSend_probe_throws [of w "source_assetOFT c" t Object r a]
    by (auto simp: main1_def)
  show "main1 w c a
      = quoteAndSend w (source_assetOFT c) (Object (hop1 r)) False (inputAmount r) [] a"
    by (rule m)
  show "approvals (submitted (main1 w c a)) = []"
    unfolding m by (simp add: quoteAndSend_submitted split: option.splits)
  show "\<forall>q. quoteSend w (source_assetOFT c) (Object (hop1 r)) = Some q
             \<and> send w (source_assetOFT c) (Object (hop1 r)) q (wallet w) (nativeFee q)
                 = Some True \<longrightarrow>
             failure (main1 w c a) = None
           \<and> submitted (main1 w c a)
               = [SendTx (source_assetOFT c) (hop1 r) q (wallet w) (nativeFee q)]"
    unfolding m
    using quoteAndSend_completes [of w "source_assetOFT c" "Object (hop1 r)" _ False
        "inputAmount r" "[]" a]
    by (auto simp: txValue_def)
next
  assume h: "privateKey c \<noteq> ''YOUR_PRIVATE_KEY_HERE''
      \<and> recipientAddress c \<noteq> ''0xYourRecipientAddressHere''
      \<and> hubAssetOFT c \<noteq> ''0xYourAssetOFTOnHubAddress''
      \<and> chains c (srcChain c) = Some src \<and> chains c (dstChain c) = Some dst
      \<and> token w (hubAssetOFT c) = Some t \<and> t \<noteq> AddressZero
      \<and> decimals w t = Some d \<and> parseUnits w (amount c) d = Some u
      \<and> sendParam5 w c dst u d = Inr p
      \<and> (approvalRequired w (hubAssetOFT c) = None
           \<or> (approvalRequired w (hubAssetOFT c) = Some True \<and> allowanceReverts w))"
  then have "handleApproval w (hubAssetOFT c) t u a = ([], a)"
    using handleApproval_probe_throws [of w "hubAssetOFT c" t u a] by blast
  with h have m: "main5 w c a = quoteAndSend w (hubAssetOFT c) (Array p) False u [] a"
    by (simp add: main5_def)
  show "main5 w c a = quoteAndSend w (hubAssetOFT c) (Array p) False u [] a"
    by (rule m)
  show "approvals (submitted (main5 w c a)) = []"
    unfolding m by (simp add: quoteAndSend_submitted split: option.splits)
  show "\<forall>q. quoteSend w (hubAssetOFT c) (Array p) = Some q
             \<and> send w (hubAssetOFT c) (Array p) q (wallet w) (nativeFee q) = Some True \<longrightarrow>
             failure (main5 w c a) = None
           \<and> submitted (main5 w c a) = [SendTx (hubAssetOFT c) p q (wallet w) (nativeFee q)]"
    unfolding m
    using quoteAndSend_completes [of w "hubAssetOFT c" "Array p" _ False u "[]" a]
    by (auto simp: txValue_def)
qed

theorem approval_probe_swallowed_witness:
  "token world_noProbe (hubAssetOFT config0) = Some ''0xToken''
   \<and> ''0xToken'' \<noteq> AddressZero
   \<and> approvalRequired world_noProbe (hubAssetOFT config0) = None
   \<and> sendParam5 world_noProbe config0 \<lparr>eid = 40232, name = ''Optimism Sepolia''\<rparr> 1000000 6
       = Inr exampleDirectHop
   \<and> failure (main5 world_noProbe config0 0) = None
   \<and> submitted (main5 world_noProbe config0 0)
       = [SendTx ''0xHubAssetOFT'' exampleDirectHop
            \<lparr>nativeFee = 3000, lzTokenFee = 0\<rparr> ''0xWallet'' 3000]"
proof -
  have b: "''0xToken'' \<noteq> AddressZero"
    "approvalRequired world_noProbe (hubAssetOFT config0) = None"
    "privateKey config0 \<noteq> ''YOUR_PRIVATE_KEY_HERE''"
    "recipientAddress config0 \<noteq> ''0xYourRecipientAddressHere''"
    "hubAssetOFT config0 \<noteq> ''0xYourAssetOFTOnHubAddress''"
    "chains config0 (srcChain config0) = Some \<lparr>eid = 40245, name = ''Base Sepolia''\<rparr>"
    "chains config0 (dstChain config0) = Some \<lparr>eid = 40232, name = ''Optimism Sepolia''\<rparr>"
    "token world_noProbe (hubAssetOFT config0) = Some ''0xToken''"
    "decimals world_noProbe ''0xToken'' = Some 6"
    "parseUnits world_noProbe (amount config0) 6 = Some 1000000"
    by (simp_all add: example_defs world_noProbe_def exampleDirectHop_def AddressZero_def
        parseFixed_examples)
  have c: "sendParam5 world_noProbe config0 \<lparr>eid = 40232, name = ''Optimism Sepolia''\<rparr>
      1000000 6 = Inr exampleDirectHop"
    by (simp add: run_defs example_defs world_noProbe_def exampleDirectHop_def)
  have q: "quoteSend world_noProbe (hubAssetOFT config0) (Array exampleDirectHop)
        = Some \<lparr>nativeFee = 3000, lzTokenFee = 0\<rparr>"
    "send world_noProbe (hubAssetOFT config0) (Array exampleDirectHop)
        \<lparr>nativeFee = 3000, lzTokenFee = 0\<rparr> (wallet world_noProbe) 3000 = Some True"
    "wallet world_noProbe = ''0xWallet''"
    "hubAssetOFT config0 = ''0xHubAssetOFT''"
    by (simp_all add: example_defs world_noProbe_def exampleDirectHop_def tupleFits_def)
  note t = approval_probe_swallowed [where w = world_noProbe and c = config0 and a = 0
      and t = "''0xToken''"
      and src = "\<lparr>eid = 40245, name = ''Base Sepolia''\<rparr>"
      and dst = "\<lparr>eid = 40232, name = ''Optimism Sepolia''\<rparr>"
      and d = 6 and u = 1000000 and p = exampleDirectHop]
  have h5: "privateKey config0 \<noteq> ''YOUR_PRIVATE_KEY_HERE''
      \<and> recipientAddress config0 \<noteq> ''0xYourRecipientAddressHere''
      \<and> hubAssetOFT config0 \<noteq> ''0xYourAssetOFTOnHubAddress''
      \<and> chains config0 (srcChain config0) = Some \<lparr>eid = 40245, name = ''Base Sepolia''\<rparr>
      \<and> chains config0 (dstChain config0) = Some \<lparr>eid = 40232, name = ''Optimism Sepolia''\<rparr>
      \<and> token world_noProbe (hubAssetOFT config0) = Some ''0xToken''
      \<and> ''0xToken'' \<noteq> AddressZero
      \<and> decimals world_noProbe ''0xToken'' = Some 6
      \<and> parseUnits world_noProbe (amount config0) 6 = Some 1000000
      \<and> sendParam5 world_noProbe config0 \<lparr>eid = 40232, name = ''Optimism Sepolia''\<rparr>
           1000000 6 = Inr exampleDirectHop
      \<and> (approvalRequired world_noProbe (hubAssetOFT config0) = None
           \<or> (approvalRequired world_noProbe (hubAssetOFT config0) = Some True
                \<and> allowanceReverts world_noProbe))"
    using b c by simp
  note m5 = t [THEN conjunct2, THEN mp, OF h5, THEN conjunct2, THEN conjunct2]
  from m5 [rule_format, of "\<lparr>nativeFee = 3000, lzTokenFee = 0\<rparr>"] q
  have r5: "failure (main5 world_noProbe config0 0) = None
      \<and> submitted (main5 world_noProbe config0 0)
       = [SendTx ''0xHubAssetOFT'' exampleDirectHop
            \<lparr>nativeFee = 3000, lzTokenFee = 0\<rparr> ''0xWallet'' 3000]"
    by simp
  from r5 b c show ?thesis by simp
qed

end
